theory Spec2Isabelle
  imports Complex_Main
begin

section \<open>JavaScript values\<close>

text \<open>
  What a handler of server.ts reads from \<^verbatim>\<open>req.body\<close>: \<^verbatim>\<open>express.json()\<close> parses the body,
  and nothing in the server checks the type of a field. A field of the body is any JSON
  value, or \<^verbatim>\<open>undefined\<close> when the key is missing. A JSON number is a double; the model
  holds its value as a real number.
\<close>

datatype js_value =
    JUndefined
  | JNull
  | JBoolean bool
  | JNumber real
  | JString string
  | JArray "js_value list"
  | JObject "(string \<times> js_value) list"

text \<open>
  A request body is the list of members of the parsed object, in the order of the text;
  a body that is missing or is not an object has no members. Of a repeated key
  \<^verbatim>\<open>JSON.parse\<close> keeps the last value. \<open>field b k\<close> is \<^verbatim>\<open>req.body.k\<close>, as the destructuring
  \<^verbatim>\<open>const { k } = req.body\<close> reads it.
\<close>

type_synonym body = "(string \<times> js_value) list"

definition field :: "body \<Rightarrow> string \<Rightarrow> js_value" where
  "field b k = (case map_of (rev b) k of None \<Rightarrow> JUndefined | Some v \<Rightarrow> v)"

section \<open>The relational store of server.ts\<close>

text \<open>
  The three tables created by the \<^verbatim>\<open>db.exec\<close> call of server.ts (lines 17-41).
  A table is the list of its rows in insertion order. A \<^verbatim>\<open>TEXT\<close> column holds a string
  or \<^verbatim>\<open>NULL\<close> (\<open>None\<close>). Timestamps are values of an arbitrary linearly ordered type
  \<open>'t\<close>: the column is filled by SQLite's \<^verbatim>\<open>CURRENT_TIMESTAMP\<close> and compared by
  \<^verbatim>\<open>ORDER BY timestamp ASC\<close>, and nothing in the server looks inside a timestamp.
\<close>

record user_row =
  u_id :: int
  u_email :: "string option"
  u_password :: "string option"
  u_name :: "string option"

record 't mood_row =
  m_id :: int
  m_user_id :: int
  m_mood :: "string option"
  m_timestamp :: 't

record 't chat_row =
  c_id :: int
  c_user_id :: int
  c_role :: "string option"
  c_content :: "string option"
  c_timestamp :: 't

text \<open>
  Every primary key is \<^verbatim>\<open>INTEGER PRIMARY KEY AUTOINCREMENT\<close>: SQLite keeps, per
  table, the largest rowid ever handed out (table \<^verbatim>\<open>sqlite_sequence\<close>); the fields
  \<open>seq_users\<close>, \<open>seq_moods\<close> and \<open>seq_chats\<close> are those counters.
\<close>

record 't database =
  users :: "user_row list"
  moods :: "'t mood_row list"
  chats :: "'t chat_row list"
  seq_users :: int
  seq_moods :: int
  seq_chats :: int

definition empty_database :: "'t database" where
  "empty_database =
     \<lparr>users = [], moods = [], chats = [], seq_users = 0, seq_moods = 0, seq_chats = 0\<rparr>"

datatype sqlite_error =
    SQLITE_CONSTRAINT_UNIQUE
  | SQLITE_CONSTRAINT_FOREIGNKEY
  | SQLITE_FULL
  | Bind_error

text \<open>
  A rowid is a signed 64-bit integer. The rowid of an AUTOINCREMENT insert is one more
  than the largest rowid that is or ever was in the table; once that is the largest
  64-bit integer the insert fails with \<^verbatim>\<open>SQLITE_FULL\<close>.
\<close>

definition MAX_ROWID :: int where
  "MAX_ROWID = 9223372036854775807"

definition next_rowid :: "int \<Rightarrow> int list \<Rightarrow> int option" where
  "next_rowid seq ids =
     (let largest = fold max ids seq in
      if MAX_ROWID \<le> largest then None else Some (largest + 1))"

text \<open>
  better-sqlite3 hands a rowid to JavaScript as a number, that is as the double nearest
  to it (ties to the even mantissa): \<^verbatim>\<open>info.lastInsertRowid\<close> and the \<^verbatim>\<open>id\<close> of a
  selected row. \<open>double_ulp n\<close> is the spacing of the doubles at \<open>n\<close>.
\<close>

fun double_ulp :: "nat \<Rightarrow> nat" where
  "double_ulp n = (if n < 2 ^ 53 then 1 else 2 * double_ulp (n div 2))"

declare double_ulp.simps [simp del]

definition js_number_of_int64 :: "int \<Rightarrow> int" where
  "js_number_of_int64 x =
     (let a = nat \<bar>x\<bar>; u = double_ulp a; q = a div u; r = a mod u;
          q' = (if 2 * r < u then q else if u < 2 * r then q + 1
                else if even q then q else q + 1)
      in sgn x * int (q' * u))"

section \<open>Collaborators outside the repository\<close>

text \<open>
  server.ts calls bcryptjs, jsonwebtoken and better-sqlite3 and reads one environment
  variable. They are parameters of the model:
  \<^item> \<open>process_env_JWT_SECRET\<close>: the value of \<^verbatim>\<open>process.env.JWT_SECRET\<close>, if set;
  \<^item> \<open>bcrypt_hash password rounds\<close>: \<^verbatim>\<open>bcrypt.hash\<close> on a string, with the salt it
    draws;
  \<^item> \<open>bcrypt_compare password hash\<close>: \<^verbatim>\<open>bcrypt.compare\<close> on two strings;
  \<^item> \<open>jwt_sign payload secret\<close> and \<open>jwt_verify token secret\<close>: \<^verbatim>\<open>jwt.sign\<close> and
    \<^verbatim>\<open>jwt.verify\<close>, the latter \<open>None\<close> where the library passes an error to the
    callback;
  \<^item> \<open>sqlite_foreign_keys\<close>: whether the SQLite build enforces the
    \<^verbatim>\<open>FOREIGN KEY(user_id) REFERENCES users(id)\<close> clauses of the schema (server.ts
    never sets the pragma itself);
  \<^item> \<open>sqlite_real_to_text\<close>: the text SQLite stores when a number reaches a \<^verbatim>\<open>TEXT\<close>
    column (\<^verbatim>\<open>5\<close> becomes \<^verbatim>\<open>'5.0'\<close>).
  The payload of a token is the object \<^verbatim>\<open>{ id, email, name }\<close> of lines 68 and 82; at
  signup its email and name are the fields of the body as they came.
\<close>

record identity =
  tok_id :: int
  tok_email :: js_value
  tok_name :: js_value

record env =
  process_env_JWT_SECRET :: "string option"
  bcrypt_hash :: "string \<Rightarrow> nat \<Rightarrow> string"
  bcrypt_compare :: "string \<Rightarrow> string \<Rightarrow> bool"
  jwt_sign :: "identity \<Rightarrow> string \<Rightarrow> string"
  jwt_verify :: "string \<Rightarrow> string \<Rightarrow> identity option"
  sqlite_foreign_keys :: bool
  sqlite_real_to_text :: "real \<Rightarrow> string"

text \<open>Line 14: \<^verbatim>\<open>process.env.JWT_SECRET || "super-secret-key"\<close>; the empty string is
  falsy.\<close>

definition JWT_SECRET :: "env \<Rightarrow> string" where
  "JWT_SECRET ev =
     (case process_env_JWT_SECRET ev of
        None \<Rightarrow> ''super-secret-key''
      | Some s \<Rightarrow> if s = [] then ''super-secret-key'' else s)"

text \<open>
  \<^verbatim>\<open>bcrypt.hash(s, 10)\<close> and \<^verbatim>\<open>bcrypt.compare(s, hash)\<close> return promises; bcryptjs
  rejects them ("Illegal arguments") unless \<open>s\<close>, and for \<open>compare\<close> the hash too, is a
  string. \<open>None\<close> is the rejected promise.
\<close>

definition bcrypt_hash_js :: "env \<Rightarrow> js_value \<Rightarrow> nat \<Rightarrow> string option" where
  "bcrypt_hash_js ev s rounds =
     (case s of JString password \<Rightarrow> Some (bcrypt_hash ev password rounds) | _ \<Rightarrow> None)"

definition bcrypt_compare_js :: "env \<Rightarrow> js_value \<Rightarrow> string option \<Rightarrow> bool option" where
  "bcrypt_compare_js ev s hash =
     (case s of
        JString password \<Rightarrow>
          (case hash of None \<Rightarrow> None | Some h \<Rightarrow> Some (bcrypt_compare ev password h))
      | _ \<Rightarrow> None)"

section \<open>Requests and responses\<close>

text \<open>
  A request is a route with the parsed body, where the route has one, and the \<^verbatim>\<open>token\<close>
  cookie as \<^verbatim>\<open>cookie-parser\<close> gives it. A request whose body \<^verbatim>\<open>express.json()\<close> refuses
  to parse is answered by that middleware before any route is reached, and is no
  request here.
\<close>

datatype api_request =
    POST_auth_signup body
  | POST_auth_login body
  | POST_auth_logout
  | GET_auth_me
  | GET_moods
  | POST_moods body
  | GET_chats
  | POST_chats body
  | DELETE_chats

record request =
  cookies_token :: "string option"
  route :: api_request

text \<open>
  \<open>Set_cookie name value httpOnly secure sameSite\<close> is \<^verbatim>\<open>res.cookie\<close>,
  \<open>Clear_cookie name\<close> is \<^verbatim>\<open>res.clearCookie\<close>. \<open>Internal_server_error\<close> is the
  body of Express's default error handler, which answers 500 when a synchronous
  handler throws. \<open>No_response\<close> stands for no answer at all: the signup and login
  handlers are \<^verbatim>\<open>async\<close>, and when their promise rejects outside a \<^verbatim>\<open>try\<close> nothing
  catches it and nothing is sent.
\<close>

datatype cookie_action = Set_cookie string string bool bool string | Clear_cookie string

datatype 't json_body =
    Error_json string
  | Profile_json identity
  | Message_json string
  | Success_json bool
  | Moods_json "'t mood_row list"
  | Chats_json "'t chat_row list"
  | Internal_server_error
  | No_response

record 't response =
  status :: nat
  body :: "'t json_body"
  cookie :: "cookie_action option"

text \<open>\<^verbatim>\<open>res.json(b)\<close> answers with status 200 unless \<^verbatim>\<open>res.status\<close> was called.\<close>

definition res_json :: "'t json_body \<Rightarrow> 't response" where
  "res_json b = \<lparr>status = 200, body = b, cookie = None\<rparr>"

definition res_status_json :: "nat \<Rightarrow> 't json_body \<Rightarrow> 't response" where
  "res_status_json code b = \<lparr>status = code, body = b, cookie = None\<rparr>"

text \<open>The outcome of a rejected promise: no status line is ever written, which the
  status 0 records.\<close>

definition unhandled_rejection :: "'t response" where
  "unhandled_rejection = \<lparr>status = 0, body = No_response, cookie = None\<rparr>"

section \<open>Binding the parameters of a statement\<close>

text \<open>
  \<^verbatim>\<open>stmt.run(a, b, c)\<close> and \<^verbatim>\<open>stmt.get(a)\<close> of better-sqlite3 bind their arguments to the
  \<^verbatim>\<open>?\<close> of the statement, in order. A string is bound as text, a number as a double,
  \<^verbatim>\<open>null\<close> and \<^verbatim>\<open>undefined\<close> as \<^verbatim>\<open>NULL\<close>; a boolean cannot be bound. An array argument
  stands for its elements, one \<^verbatim>\<open>?\<close> each; a plain object holds named parameters, of
  which these statements have none, so it fills no \<^verbatim>\<open>?\<close>, and a second object is
  refused. \<open>None\<close> is the \<^verbatim>\<open>TypeError\<close> the binding throws; the caller compares the
  number of values with the number of \<^verbatim>\<open>?\<close> (a \<^verbatim>\<open>RangeError\<close> when they differ).
\<close>

datatype bound = Bind_null | Bind_double real | Bind_text string

fun bind_value :: "js_value \<Rightarrow> bound option" where
  "bind_value (JString s) = Some (Bind_text s)"
| "bind_value (JNumber x) = Some (Bind_double x)"
| "bind_value JNull = Some Bind_null"
| "bind_value JUndefined = Some Bind_null"
| "bind_value (JBoolean _) = None"
| "bind_value (JArray _) = None"
| "bind_value (JObject _) = None"

fun bind_arguments :: "bool \<Rightarrow> js_value list \<Rightarrow> bound list option" where
  "bind_arguments seen_object [] = Some []"
| "bind_arguments seen_object (JArray xs # args) =
     (case those (map bind_value xs) of
        None \<Rightarrow> None
      | Some vs \<Rightarrow> map_option ((@) vs) (bind_arguments seen_object args))"
| "bind_arguments seen_object (JObject ms # args) =
     (if seen_object then None else bind_arguments True args)"
| "bind_arguments seen_object (a # args) =
     (case bind_value a of
        None \<Rightarrow> None
      | Some v \<Rightarrow> map_option ((#) v) (bind_arguments seen_object args))"

text \<open>The value a \<^verbatim>\<open>TEXT\<close> column stores for a bound value, and the value a bound
  value is compared as against a \<^verbatim>\<open>TEXT\<close> column: a number is turned into text.\<close>

definition text_affinity :: "env \<Rightarrow> bound \<Rightarrow> string option" where
  "text_affinity ev v =
     (case v of
        Bind_null \<Rightarrow> None
      | Bind_double x \<Rightarrow> Some (sqlite_real_to_text ev x)
      | Bind_text s \<Rightarrow> Some s)"

text \<open>What \<^verbatim>\<open>res.json\<close> sends for a \<^verbatim>\<open>TEXT\<close> column of a selected row.\<close>

definition json_of_text :: "string option \<Rightarrow> js_value" where
  "json_of_text v = (case v of None \<Rightarrow> JNull | Some s \<Rightarrow> JString s)"

section \<open>The SQL statements\<close>

text \<open>\<^verbatim>\<open>INSERT INTO users (email, password, name) VALUES (?, ?, ?)\<close>, run on the email
  and the name of the body and the hash. The column \<^verbatim>\<open>email TEXT UNIQUE\<close> makes the
  statement throw when the email is already in the table (\<^verbatim>\<open>NULL\<close> is never a
  duplicate); a failed statement changes nothing.\<close>

definition insert_user ::
  "env \<Rightarrow> js_value \<Rightarrow> string \<Rightarrow> js_value \<Rightarrow> 't database \<Rightarrow>
     sqlite_error + (int \<times> 't database)" where
  "insert_user ev email hashedPassword name db =
     (case bind_arguments False [email, JString hashedPassword, name] of
        Some [e, p, n] \<Rightarrow>
          if (case text_affinity ev e of
                None \<Rightarrow> False
              | Some s \<Rightarrow> \<exists>u \<in> set (users db). u_email u = Some s)
          then Inl SQLITE_CONSTRAINT_UNIQUE
          else
            (case next_rowid (seq_users db) (map u_id (users db)) of
               None \<Rightarrow> Inl SQLITE_FULL
             | Some rowid \<Rightarrow>
                 Inr (rowid,
                      db\<lparr>users := users db @
                            [\<lparr>u_id = rowid, u_email = text_affinity ev e,
                              u_password = text_affinity ev p,
                              u_name = text_affinity ev n\<rparr>],
                         seq_users := rowid\<rparr>))
      | _ \<Rightarrow> Inl Bind_error)"

text \<open>\<^verbatim>\<open>SELECT * FROM users WHERE email = ?\<close> with \<^verbatim>\<open>.get\<close>: the first matching row;
  \<^verbatim>\<open>email = NULL\<close> matches no row.\<close>

definition select_user_by_email ::
  "env \<Rightarrow> js_value \<Rightarrow> 't database \<Rightarrow> sqlite_error + user_row option" where
  "select_user_by_email ev email db =
     (case bind_arguments False [email] of
        Some [e] \<Rightarrow>
          Inr (case text_affinity ev e of
                 None \<Rightarrow> None
               | Some s \<Rightarrow> find (\<lambda>u. u_email u = Some s) (users db))
      | _ \<Rightarrow> Inl Bind_error)"

text \<open>The foreign key of \<^verbatim>\<open>moods.user_id\<close> and \<^verbatim>\<open>chats.user_id\<close>, where enforced.\<close>

definition foreign_key_ok :: "env \<Rightarrow> 't database \<Rightarrow> int \<Rightarrow> bool" where
  "foreign_key_ok ev db uid =
     (if sqlite_foreign_keys ev then uid \<in> set (map u_id (users db)) else True)"

text \<open>\<^verbatim>\<open>INSERT INTO moods (user_id, mood) VALUES (?, ?)\<close>, run on \<^verbatim>\<open>req.user.id\<close> and the
  mood of the body; the timestamp column takes its default \<^verbatim>\<open>CURRENT_TIMESTAMP\<close>, here
  \<open>now\<close>. \<open>mood_column\<close> is the value the statement stores, where the binding goes
  through.\<close>

definition mood_column :: "env \<Rightarrow> js_value \<Rightarrow> string option option" where
  "mood_column ev mood =
     (case bind_arguments False [mood] of
        Some [m] \<Rightarrow> Some (text_affinity ev m)
      | _ \<Rightarrow> None)"

definition insert_mood ::
  "env \<Rightarrow> 't \<Rightarrow> int \<Rightarrow> js_value \<Rightarrow> 't database \<Rightarrow> sqlite_error + 't database" where
  "insert_mood ev now uid mood db =
     (case mood_column ev mood of
        None \<Rightarrow> Inl Bind_error
      | Some m \<Rightarrow>
          if \<not> foreign_key_ok ev db uid then Inl SQLITE_CONSTRAINT_FOREIGNKEY
          else
            (case next_rowid (seq_moods db) (map m_id (moods db)) of
               None \<Rightarrow> Inl SQLITE_FULL
             | Some rowid \<Rightarrow>
                 Inr (db\<lparr>moods := moods db @
                            [\<lparr>m_id = rowid, m_user_id = uid, m_mood = m,
                              m_timestamp = now\<rparr>],
                         seq_moods := rowid\<rparr>)))"

text \<open>\<^verbatim>\<open>INSERT INTO chats (user_id, role, content) VALUES (?, ?, ?)\<close>, run on
  \<^verbatim>\<open>req.user.id\<close> and the role and content of the body. \<open>chat_columns\<close> are the two
  values the statement stores, where the binding goes through.\<close>

definition chat_columns ::
  "env \<Rightarrow> js_value \<Rightarrow> js_value \<Rightarrow> (string option \<times> string option) option" where
  "chat_columns ev role content =
     (case bind_arguments False [role, content] of
        Some [r, c] \<Rightarrow> Some (text_affinity ev r, text_affinity ev c)
      | _ \<Rightarrow> None)"

definition insert_chat ::
  "env \<Rightarrow> 't \<Rightarrow> int \<Rightarrow> js_value \<Rightarrow> js_value \<Rightarrow> 't database \<Rightarrow>
     sqlite_error + 't database" where
  "insert_chat ev now uid role content db =
     (case chat_columns ev role content of
        None \<Rightarrow> Inl Bind_error
      | Some (r, c) \<Rightarrow>
          if \<not> foreign_key_ok ev db uid then Inl SQLITE_CONSTRAINT_FOREIGNKEY
          else
            (case next_rowid (seq_chats db) (map c_id (chats db)) of
               None \<Rightarrow> Inl SQLITE_FULL
             | Some rowid \<Rightarrow>
                 Inr (db\<lparr>chats := chats db @
                            [\<lparr>c_id = rowid, c_user_id = uid, c_role = r, c_content = c,
                              c_timestamp = now\<rparr>],
                         seq_chats := rowid\<rparr>)))"

text \<open>\<^verbatim>\<open>SELECT * FROM moods WHERE user_id = ? ORDER BY timestamp ASC\<close> and the same
  statement on chats. SQLite leaves the order of rows with equal timestamps open; the
  model keeps them in table order.\<close>

definition select_moods :: "int \<Rightarrow> ('t::linorder) database \<Rightarrow> 't mood_row list" where
  "select_moods uid db = sort_key m_timestamp (filter (\<lambda>m. m_user_id m = uid) (moods db))"

definition select_chats :: "int \<Rightarrow> ('t::linorder) database \<Rightarrow> 't chat_row list" where
  "select_chats uid db = sort_key c_timestamp (filter (\<lambda>c. c_user_id c = uid) (chats db))"

text \<open>\<^verbatim>\<open>DELETE FROM chats WHERE user_id = ?\<close>.\<close>

definition delete_chats_of :: "int \<Rightarrow> 't database \<Rightarrow> 't database" where
  "delete_chats_of uid db = db\<lparr>chats := filter (\<lambda>c. c_user_id c \<noteq> uid) (chats db)\<rparr>"

text \<open>
  What \<^verbatim>\<open>SELECT *\<close> yields for a chat row, and so what \<^verbatim>\<open>res.json(chats)\<close> sends:
  an object with one key per column of the chats table (lines 33-40).
\<close>

datatype 't wire_value = Json js_value | Timestamp 't

definition chat_json :: "'t chat_row \<Rightarrow> (string \<times> 't wire_value) list" where
  "chat_json c =
     [(''id'', Json (JNumber (real_of_int (js_number_of_int64 (c_id c))))),
      (''user_id'', Json (JNumber (real_of_int (js_number_of_int64 (c_user_id c))))),
      (''role'', Json (json_of_text (c_role c))),
      (''content'', Json (json_of_text (c_content c))),
      (''timestamp'', Timestamp (c_timestamp c))]"

text \<open>The client's \<^verbatim>\<open>msg.mood\<close> on a listed message (part_000, line 364).\<close>

definition msg_mood :: "'t chat_row \<Rightarrow> 't wire_value option" where
  "msg_mood c = map_of (chat_json c) ''mood''"

section \<open>The middleware and the handlers\<close>

text \<open>
  Lines 51-60. \<^verbatim>\<open>!token\<close> holds for a missing cookie and for the empty string. The
  continuation \<open>next\<close> is the protected handler, run with \<^verbatim>\<open>req.user\<close> set.
\<close>

definition authenticateToken ::
  "env \<Rightarrow> request \<Rightarrow> (identity \<Rightarrow> 't database \<Rightarrow> 't response \<times> 't database) \<Rightarrow>
     't database \<Rightarrow> 't response \<times> 't database" where
  "authenticateToken ev req next db =
     (case cookies_token req of
        None \<Rightarrow> (res_status_json 401 (Error_json ''Unauthorized''), db)
      | Some token \<Rightarrow>
          if token = [] then (res_status_json 401 (Error_json ''Unauthorized''), db)
          else
            (case jwt_verify ev token (JWT_SECRET ev) of
               None \<Rightarrow> (res_status_json 403 (Error_json ''Forbidden''), db)
             | Some user \<Rightarrow> next user db))"

text \<open>Lines 63-74. The hash is awaited before the \<^verbatim>\<open>try\<close>: when it rejects, nothing is
  sent. Inside the \<^verbatim>\<open>try\<close> every throw of the INSERT is answered as a duplicate.\<close>

definition auth_signup ::
  "env \<Rightarrow> body \<Rightarrow> 't database \<Rightarrow> 't response \<times> 't database" where
  "auth_signup ev b db =
     (let email = field b ''email''; password = field b ''password''; name = field b ''name'' in
      case bcrypt_hash_js ev password 10 of
        None \<Rightarrow> (unhandled_rejection, db)
      | Some hashedPassword \<Rightarrow>
          (case insert_user ev email hashedPassword name db of
             Inl e \<Rightarrow> (res_status_json 400 (Error_json ''Email already exists''), db)
           | Inr (rowid, db') \<Rightarrow>
               let lastInsertRowid = js_number_of_int64 rowid;
                   token = jwt_sign ev
                     \<lparr>tok_id = lastInsertRowid, tok_email = email, tok_name = name\<rparr>
                     (JWT_SECRET ev)
               in (\<lparr>status = 200,
                    body = Profile_json
                      \<lparr>tok_id = lastInsertRowid, tok_email = email, tok_name = name\<rparr>,
                    cookie = Some (Set_cookie ''token'' token True True ''none'')\<rparr>, db')))"

text \<open>Lines 76-85. One condition, \<^verbatim>\<open>!user || !(await bcrypt.compare(...))\<close>, guards
  one \<^verbatim>\<open>return\<close>; \<open>guard\<close> is its value, \<open>None\<close> when the awaited comparison rejects,
  which like a throw of the SELECT leaves the request without an answer. Past the guard
  \<open>user\<close> is a row; the inner \<open>None\<close> case is never reached.\<close>

definition auth_login ::
  "env \<Rightarrow> body \<Rightarrow> 't database \<Rightarrow> 't response \<times> 't database" where
  "auth_login ev b db =
     (let email = field b ''email''; password = field b ''password'' in
      case select_user_by_email ev email db of
        Inl e \<Rightarrow> (unhandled_rejection, db)
      | Inr user \<Rightarrow>
          let guard = (case user of
                         None \<Rightarrow> Some True
                       | Some u \<Rightarrow> map_option Not (bcrypt_compare_js ev password (u_password u)))
          in case guard of
               None \<Rightarrow> (unhandled_rejection, db)
             | Some True \<Rightarrow> (res_status_json 401 (Error_json ''Invalid credentials''), db)
             | Some False \<Rightarrow>
                 (case user of
                    None \<Rightarrow> (res_status_json 401 (Error_json ''Invalid credentials''), db)
                  | Some u \<Rightarrow>
                      let payload = \<lparr>tok_id = js_number_of_int64 (u_id u),
                                     tok_email = json_of_text (u_email u),
                                     tok_name = json_of_text (u_name u)\<rparr>;
                          token = jwt_sign ev payload (JWT_SECRET ev)
                      in (\<lparr>status = 200, body = Profile_json payload,
                           cookie = Some (Set_cookie ''token'' token True True ''none'')\<rparr>,
                          db)))"

text \<open>Lines 87-90.\<close>

definition auth_logout :: "'t database \<Rightarrow> 't response \<times> 't database" where
  "auth_logout db =
     (\<lparr>status = 200, body = Message_json ''Logged out'',
       cookie = Some (Clear_cookie ''token'')\<rparr>, db)"

text \<open>Lines 92-94.\<close>

definition auth_me :: "identity \<Rightarrow> 't database \<Rightarrow> 't response \<times> 't database" where
  "auth_me user db = (res_json (Profile_json user), db)"

text \<open>Lines 97-100.\<close>

definition moods_get ::
  "identity \<Rightarrow> ('t::linorder) database \<Rightarrow> 't response \<times> 't database" where
  "moods_get user db = (res_json (Moods_json (select_moods (tok_id user) db)), db)"

text \<open>Lines 102-106. Only \<^verbatim>\<open>mood\<close> is read from the body; a throw of the INSERT is
  answered 500.\<close>

definition moods_post ::
  "env \<Rightarrow> 't \<Rightarrow> body \<Rightarrow> identity \<Rightarrow> 't database \<Rightarrow> 't response \<times> 't database" where
  "moods_post ev now b user db =
     (let mood = field b ''mood'' in
      case insert_mood ev now (tok_id user) mood db of
        Inl e \<Rightarrow> (res_status_json 500 Internal_server_error, db)
      | Inr db' \<Rightarrow> (res_json (Success_json True), db'))"

text \<open>Lines 108-111.\<close>

definition chats_get ::
  "identity \<Rightarrow> ('t::linorder) database \<Rightarrow> 't response \<times> 't database" where
  "chats_get user db = (res_json (Chats_json (select_chats (tok_id user) db)), db)"

text \<open>Lines 113-117. Only \<^verbatim>\<open>role\<close> and \<^verbatim>\<open>content\<close> are read from the body; a throw of
  the INSERT is answered 500.\<close>

definition chats_post ::
  "env \<Rightarrow> 't \<Rightarrow> body \<Rightarrow> identity \<Rightarrow> 't database \<Rightarrow> 't response \<times> 't database" where
  "chats_post ev now b user db =
     (let role = field b ''role''; content = field b ''content'' in
      case insert_chat ev now (tok_id user) role content db of
        Inl e \<Rightarrow> (res_status_json 500 Internal_server_error, db)
      | Inr db' \<Rightarrow> (res_json (Success_json True), db'))"

text \<open>Lines 119-122.\<close>

definition chats_delete :: "identity \<Rightarrow> 't database \<Rightarrow> 't response \<times> 't database" where
  "chats_delete user db = (res_json (Success_json True), delete_chats_of (tok_id user) db)"

text \<open>
  The routing table of \<open>startServer\<close>: one request, at database time \<open>now\<close>, against
  the store \<open>db\<close>, gives a response and the store after it.
\<close>

definition server ::
  "env \<Rightarrow> ('t::linorder) \<Rightarrow> request \<Rightarrow> 't database \<Rightarrow> 't response \<times> 't database" where
  "server ev now req db =
     (case route req of
        POST_auth_signup b \<Rightarrow> auth_signup ev b db
      | POST_auth_login b \<Rightarrow> auth_login ev b db
      | POST_auth_logout \<Rightarrow> auth_logout db
      | GET_auth_me \<Rightarrow> authenticateToken ev req auth_me db
      | GET_moods \<Rightarrow> authenticateToken ev req moods_get db
      | POST_moods b \<Rightarrow> authenticateToken ev req (moods_post ev now b) db
      | GET_chats \<Rightarrow> authenticateToken ev req chats_get db
      | POST_chats b \<Rightarrow> authenticateToken ev req (chats_post ev now b) db
      | DELETE_chats \<Rightarrow> authenticateToken ev req chats_delete db)"

text \<open>The endpoints registered with the \<open>authenticateToken\<close> middleware.\<close>

fun protected :: "api_request \<Rightarrow> bool" where
  "protected (POST_auth_signup _) = False"
| "protected (POST_auth_login _) = False"
| "protected POST_auth_logout = False"
| "protected _ = True"

section \<open>A small instance\<close>

text \<open>
  Two registered users and stand-ins for the libraries, on which the theorems below are
  evaluated: the stand-in hash prefixes the password, the stand-in tokens are the fixed
  strings \<open>tokenA\<close> and \<open>tokenB\<close>, and the stand-in rendering of a number knows the
  number 5. Timestamps are natural numbers here. Further a store whose users table has
  reached the largest rowid, a store with some history, and request bodies: two signups,
  messages with markup, a message whose content is a number, a bot reply that carries a
  mood, a message with an empty role, and bodies that name another user.
\<close>

definition alice :: identity where
  "alice = \<lparr>tok_id = 1, tok_email = JString ''a@x.com'', tok_name = JString ''A''\<rparr>"

definition bob :: identity where
  "bob = \<lparr>tok_id = 2, tok_email = JString ''b@x.com'', tok_name = JString ''B''\<rparr>"

definition demo_env :: env where
  "demo_env =
     \<lparr>process_env_JWT_SECRET = None,
      bcrypt_hash = (\<lambda>password rounds. ''$2a$'' @ password),
      bcrypt_compare = (\<lambda>password hash. hash = ''$2a$'' @ password),
      jwt_sign = (\<lambda>payload secret.
         if payload = alice then ''tokenA'' else if payload = bob then ''tokenB'' else ''tokenC''),
      jwt_verify = (\<lambda>token secret.
         if token = ''tokenA'' then Some alice else if token = ''tokenB'' then Some bob else None),
      sqlite_foreign_keys = True,
      sqlite_real_to_text = (\<lambda>x. if x = 5 then ''5.0'' else ''0.0'')\<rparr>"

definition demo_db :: "nat database" where
  "demo_db =
     \<lparr>users = [\<lparr>u_id = 1, u_email = Some ''a@x.com'', u_password = Some ''$2a$pw'',
                 u_name = Some ''A''\<rparr>,
               \<lparr>u_id = 2, u_email = Some ''b@x.com'', u_password = Some ''$2a$secret'',
                 u_name = Some ''B''\<rparr>],
      moods = [], chats = [], seq_users = 2, seq_moods = 0, seq_chats = 0\<rparr>"

definition exhausted_db :: "nat database" where
  "exhausted_db =
     \<lparr>users = [\<lparr>u_id = 9223372036854775807, u_email = Some ''a@x.com'',
                 u_password = Some ''$2a$pw'', u_name = Some ''A''\<rparr>],
      moods = [], chats = [], seq_users = 9223372036854775807, seq_moods = 0, seq_chats = 0\<rparr>"

definition signup_again :: body where
  "signup_again =
     [(''email'', JString ''a@x.com''), (''password'', JString ''pw2''), (''name'', JString ''A2'')]"

definition signup_carol :: body where
  "signup_carol =
     [(''email'', JString ''c@x.com''), (''password'', JString ''pw3''), (''name'', JString ''C'')]"

definition demo_log :: "nat database" where
  "demo_log = demo_db
     \<lparr>moods := [\<lparr>m_id = 1, m_user_id = 1, m_mood = Some ''Sad'', m_timestamp = 30\<rparr>,
                \<lparr>m_id = 2, m_user_id = 2, m_mood = Some ''Happy'', m_timestamp = 12\<rparr>,
                \<lparr>m_id = 3, m_user_id = 1, m_mood = Some ''Happy'', m_timestamp = 10\<rparr>],
      chats := [\<lparr>c_id = 1, c_user_id = 1, c_role = Some ''user'', c_content = Some ''later'',
                  c_timestamp = 30\<rparr>,
                \<lparr>c_id = 2, c_user_id = 2, c_role = Some ''user'', c_content = Some ''other'',
                  c_timestamp = 12\<rparr>,
                \<lparr>c_id = 3, c_user_id = 1, c_role = Some ''bot'', c_content = Some ''earlier'',
                  c_timestamp = 10\<rparr>],
      seq_moods := 3, seq_chats := 3\<rparr>"

definition hello_from_alice :: body where
  "hello_from_alice =
     [(''role'', JString ''user''), (''content'', JString ''**hello** <b>world</b>''),
      (''timestamp'', JString ''2024-05-01T10:00:00.000Z'')]"

definition hello_from_bob :: body where
  "hello_from_bob =
     [(''role'', JString ''user''), (''content'', JString ''bonjour''),
      (''timestamp'', JString ''2024-05-01T10:00:01.000Z'')]"

definition number_content :: body where
  "number_content = [(''role'', JString ''user''), (''content'', JNumber 5)]"

definition bot_reply :: body where
  "bot_reply =
     [(''role'', JString ''bot''), (''content'', JString ''Glad to hear it!''),
      (''timestamp'', JString ''2024-05-01T10:00:02.000Z''), (''mood'', JString ''Happy'')]"

definition empty_role_post :: body where
  "empty_role_post = [(''role'', JString []), (''content'', JString ''hi'')]"

definition post_as_bob :: body where
  "post_as_bob =
     [(''role'', JString ''user''), (''content'', JString ''hi''),
      (''timestamp'', JString ''1999-01-01T00:00:00.000Z''), (''user_id'', JNumber 2)]"

definition mood_as_bob :: body where
  "mood_as_bob =
     [(''mood'', JString ''Sad''), (''timestamp'', JString ''1999-01-01T00:00:00.000Z''),
      (''user_id'', JNumber 2)]"

section \<open>Auxiliary facts\<close>

lemma authenticateToken_valid:
  "cookies_token req = Some tok \<Longrightarrow> tok \<noteq> [] \<Longrightarrow>
   jwt_verify ev tok (JWT_SECRET ev) = Some user \<Longrightarrow>
   authenticateToken ev req next db = next user db"
  by (simp add: authenticateToken_def)

lemma fold_max_ge: "(s::int) \<le> fold max ids s"
proof (induction ids arbitrary: s)
  case Nil
  show ?case by simp
next
  case (Cons i ids)
  have "s \<le> max i s" by simp
  also have "\<dots> \<le> fold max ids (max i s)" by (rule Cons.IH)
  finally show ?case by simp
qed

lemma fold_max_mem: "i \<in> set ids \<Longrightarrow> i \<le> fold max ids (s::int)"
proof (induction ids arbitrary: s)
  case Nil
  then show ?case by simp
next
  case (Cons a ids)
  show ?case
  proof (cases "i = a")
    case True
    have "a \<le> max a s" by simp
    also have "\<dots> \<le> fold max ids (max a s)" by (rule fold_max_ge)
    finally show ?thesis using True by simp
  next
    case False
    with Cons.prems have "i \<in> set ids" by simp
    then show ?thesis using Cons.IH by simp
  qed
qed

lemma next_rowid_fresh: "next_rowid s ids = Some i \<Longrightarrow> i \<notin> set ids"
proof
  assume n: "next_rowid s ids = Some i" and "i \<in> set ids"
  then have "i \<le> fold max ids s" by (simp add: fold_max_mem)
  moreover from n have "i = fold max ids s + 1"
    by (simp add: next_rowid_def Let_def split: if_splits)
  ultimately show False by simp
qed

lemma next_rowid_available:
  "fold max ids s < MAX_ROWID \<Longrightarrow> next_rowid s ids = Some (fold max ids s + 1)"
  by (simp add: next_rowid_def Let_def)

lemma js_number_of_int64_exact:
  assumes "\<bar>x\<bar> < 2 ^ 53"
  shows "js_number_of_int64 x = x"
proof -
  from assms have "nat \<bar>x\<bar> < 2 ^ 53"
    by (simp add: nat_less_iff)
  then have "double_ulp (nat \<bar>x\<bar>) = 1"
    by (simp add: double_ulp.simps)
  then have "js_number_of_int64 x = sgn x * \<bar>x\<bar>"
    by (simp add: js_number_of_int64_def Let_def)
  then show ?thesis by (simp add: mult_sgn_abs)
qed

lemma double_ulp_above_exact: "double_ulp 9007199254740993 = 2"
  apply (subst double_ulp.simps)
  apply simp
  apply (subst double_ulp.simps)
  apply simp
  done

lemma js_number_of_int64_rounds: "js_number_of_int64 9007199254740993 = 9007199254740992"
  by (simp add: js_number_of_int64_def double_ulp_above_exact Let_def)

lemma chat_columns_strings:
  "chat_columns ev (JString r) (JString c) = Some (Some r, Some c)"
  by (simp add: chat_columns_def text_affinity_def)

lemma mood_column_string: "mood_column ev (JString m) = Some (Some m)"
  by (simp add: mood_column_def text_affinity_def)

lemma select_user_by_email_string:
  "select_user_by_email ev (JString e) db = Inr (find (\<lambda>u. u_email u = Some e) (users db))"
  by (simp add: select_user_by_email_def text_affinity_def)

lemma insert_user_strings:
  "insert_user ev (JString e) h (JString n) db =
     (if \<exists>u \<in> set (users db). u_email u = Some e then Inl SQLITE_CONSTRAINT_UNIQUE
      else case next_rowid (seq_users db) (map u_id (users db)) of
             None \<Rightarrow> Inl SQLITE_FULL
           | Some rowid \<Rightarrow>
               Inr (rowid,
                    db\<lparr>users := users db @
                          [\<lparr>u_id = rowid, u_email = Some e, u_password = Some h,
                            u_name = Some n\<rparr>],
                       seq_users := rowid\<rparr>))"
  by (auto simp add: insert_user_def text_affinity_def split: option.splits)

lemma server_protected:
  "protected (route req) \<Longrightarrow>
   \<exists>k. server ev now req db = authenticateToken ev req k db"
  by (cases "route req") (auto simp add: server_def)

lemma authenticateToken_missing:
  "cookies_token req = None \<or> cookies_token req = Some [] \<Longrightarrow>
   authenticateToken ev req k db =
     (\<lparr>status = 401, body = Error_json ''Unauthorized'', cookie = None\<rparr>, db)"
  by (auto simp add: authenticateToken_def res_status_json_def)

lemma authenticateToken_invalid:
  "cookies_token req = Some tok \<Longrightarrow> tok \<noteq> [] \<Longrightarrow>
   jwt_verify ev tok (JWT_SECRET ev) = None \<Longrightarrow>
   authenticateToken ev req k db =
     (\<lparr>status = 403, body = Error_json ''Forbidden'', cookie = None\<rparr>, db)"
  by (simp add: authenticateToken_def res_status_json_def)

lemma sorted_select_chats: "sorted (map c_timestamp (select_chats uid db))"
  by (simp add: select_chats_def)

lemma sorted_select_moods: "sorted (map m_timestamp (select_moods uid db))"
  by (simp add: select_moods_def)

lemma set_select_chats: "set (select_chats uid db) = {c \<in> set (chats db). c_user_id c = uid}"
  by (auto simp add: select_chats_def)

lemma set_select_moods: "set (select_moods uid db) = {m \<in> set (moods db). m_user_id m = uid}"
  by (auto simp add: select_moods_def)

lemma length_select_chats:
  "length (select_chats uid db) = length (filter (\<lambda>c. c_user_id c = uid) (chats db))"
  by (simp add: select_chats_def)

lemma length_select_moods:
  "length (select_moods uid db) = length (filter (\<lambda>m. m_user_id m = uid) (moods db))"
  by (simp add: select_moods_def)

lemma server_valid_route:
  assumes "tok \<noteq> []" and "jwt_verify ev tok (JWT_SECRET ev) = Some user"
  shows "server ev now \<lparr>cookies_token = Some tok, route = POST_chats b\<rparr> db =
           chats_post ev now b user db"
    and "server ev now \<lparr>cookies_token = Some tok, route = POST_moods mb\<rparr> db =
           moods_post ev now mb user db"
    and "server ev now \<lparr>cookies_token = Some tok, route = GET_chats\<rparr> db = chats_get user db"
    and "server ev now \<lparr>cookies_token = Some tok, route = GET_moods\<rparr> db = moods_get user db"
    and "server ev now \<lparr>cookies_token = Some tok, route = DELETE_chats\<rparr> db =
           chats_delete user db"
  using assms by (simp_all add: server_def authenticateToken_valid)

lemma chats_post_ok:
  "chat_columns ev (field b ''role'') (field b ''content'') = Some (r, c) \<Longrightarrow>
   foreign_key_ok ev db (tok_id user) \<Longrightarrow>
   next_rowid (seq_chats db) (map c_id (chats db)) = Some i \<Longrightarrow>
   chats_post ev now b user db =
     (\<lparr>status = 200, body = Success_json True, cookie = None\<rparr>,
      db\<lparr>chats := chats db @
            [\<lparr>c_id = i, c_user_id = tok_id user, c_role = r, c_content = c,
              c_timestamp = now\<rparr>],
         seq_chats := i\<rparr>)"
  by (simp add: chats_post_def insert_chat_def res_json_def)

lemma chats_post_rejected:
  "chat_columns ev (field b ''role'') (field b ''content'') = None
     \<or> \<not> foreign_key_ok ev db (tok_id user)
     \<or> next_rowid (seq_chats db) (map c_id (chats db)) = None \<Longrightarrow>
   chats_post ev now b user db =
     (\<lparr>status = 500, body = Internal_server_error, cookie = None\<rparr>, db)"
  by (auto simp add: chats_post_def insert_chat_def res_status_json_def split: option.splits)

lemma chats_post_cases:
  obtains (rejected)
      "chat_columns ev (field b ''role'') (field b ''content'') = None
         \<or> \<not> foreign_key_ok ev db (tok_id user)
         \<or> next_rowid (seq_chats db) (map c_id (chats db)) = None"
      "chats_post ev now b user db =
         (\<lparr>status = 500, body = Internal_server_error, cookie = None\<rparr>, db)"
  | (inserted) r c i where
      "chat_columns ev (field b ''role'') (field b ''content'') = Some (r, c)"
      "foreign_key_ok ev db (tok_id user)"
      "next_rowid (seq_chats db) (map c_id (chats db)) = Some i"
      "chats_post ev now b user db =
         (\<lparr>status = 200, body = Success_json True, cookie = None\<rparr>,
          db\<lparr>chats := chats db @
                [\<lparr>c_id = i, c_user_id = tok_id user, c_role = r, c_content = c,
                  c_timestamp = now\<rparr>],
             seq_chats := i\<rparr>)"
proof (cases "chat_columns ev (field b ''role'') (field b ''content'') = None
         \<or> \<not> foreign_key_ok ev db (tok_id user)
         \<or> next_rowid (seq_chats db) (map c_id (chats db)) = None")
  case True
  show thesis by (rule rejected [OF True chats_post_rejected [OF True]])
next
  case False
  then obtain r c i where f:
    "chat_columns ev (field b ''role'') (field b ''content'') = Some (r, c)"
    "foreign_key_ok ev db (tok_id user)"
    "next_rowid (seq_chats db) (map c_id (chats db)) = Some i"
    by auto
  show thesis by (rule inserted [OF f chats_post_ok [OF f]])
qed

lemma moods_post_ok:
  "mood_column ev (field b ''mood'') = Some m \<Longrightarrow>
   foreign_key_ok ev db (tok_id user) \<Longrightarrow>
   next_rowid (seq_moods db) (map m_id (moods db)) = Some i \<Longrightarrow>
   moods_post ev now b user db =
     (\<lparr>status = 200, body = Success_json True, cookie = None\<rparr>,
      db\<lparr>moods := moods db @
            [\<lparr>m_id = i, m_user_id = tok_id user, m_mood = m, m_timestamp = now\<rparr>],
         seq_moods := i\<rparr>)"
  by (simp add: moods_post_def insert_mood_def res_json_def)

lemma moods_post_rejected:
  "mood_column ev (field b ''mood'') = None
     \<or> \<not> foreign_key_ok ev db (tok_id user)
     \<or> next_rowid (seq_moods db) (map m_id (moods db)) = None \<Longrightarrow>
   moods_post ev now b user db =
     (\<lparr>status = 500, body = Internal_server_error, cookie = None\<rparr>, db)"
  by (auto simp add: moods_post_def insert_mood_def res_status_json_def split: option.splits)

lemma moods_post_cases:
  obtains (rejected)
      "mood_column ev (field b ''mood'') = None
         \<or> \<not> foreign_key_ok ev db (tok_id user)
         \<or> next_rowid (seq_moods db) (map m_id (moods db)) = None"
      "moods_post ev now b user db =
         (\<lparr>status = 500, body = Internal_server_error, cookie = None\<rparr>, db)"
  | (inserted) m i where
      "mood_column ev (field b ''mood'') = Some m"
      "foreign_key_ok ev db (tok_id user)"
      "next_rowid (seq_moods db) (map m_id (moods db)) = Some i"
      "moods_post ev now b user db =
         (\<lparr>status = 200, body = Success_json True, cookie = None\<rparr>,
          db\<lparr>moods := moods db @
                [\<lparr>m_id = i, m_user_id = tok_id user, m_mood = m, m_timestamp = now\<rparr>],
             seq_moods := i\<rparr>)"
proof (cases "mood_column ev (field b ''mood'') = None
         \<or> \<not> foreign_key_ok ev db (tok_id user)
         \<or> next_rowid (seq_moods db) (map m_id (moods db)) = None")
  case True
  show thesis by (rule rejected [OF True moods_post_rejected [OF True]])
next
  case False
  then obtain m i where f:
    "mood_column ev (field b ''mood'') = Some m"
    "foreign_key_ok ev db (tok_id user)"
    "next_rowid (seq_moods db) (map m_id (moods db)) = Some i"
    by auto
  show thesis by (rule inserted [OF f moods_post_ok [OF f]])
qed

lemma chat_json_text:
  "map_of (chat_json m) ''role'' = Some (Json (json_of_text (c_role m)))"
  "map_of (chat_json m) ''content'' = Some (Json (json_of_text (c_content m)))"
  by (simp_all add: chat_json_def)

lemma chats_post_acknowledged:
  assumes "status (fst (chats_post ev now b user db)) = 200"
  obtains r c i where
      "chat_columns ev (field b ''role'') (field b ''content'') = Some (r, c)"
      "foreign_key_ok ev db (tok_id user)"
      "next_rowid (seq_chats db) (map c_id (chats db)) = Some i"
      "chats_post ev now b user db =
         (\<lparr>status = 200, body = Success_json True, cookie = None\<rparr>,
          db\<lparr>chats := chats db @
                [\<lparr>c_id = i, c_user_id = tok_id user, c_role = r, c_content = c,
                  c_timestamp = now\<rparr>],
             seq_chats := i\<rparr>)"
proof (cases rule: chats_post_cases [of ev b db user now])
  case rejected
  with assms show thesis by simp
next
  case (inserted r c i)
  then show thesis by (rule that)
qed

lemma moods_post_acknowledged:
  assumes "status (fst (moods_post ev now b user db)) = 200"
  obtains m i where
      "mood_column ev (field b ''mood'') = Some m"
      "foreign_key_ok ev db (tok_id user)"
      "next_rowid (seq_moods db) (map m_id (moods db)) = Some i"
      "moods_post ev now b user db =
         (\<lparr>status = 200, body = Success_json True, cookie = None\<rparr>,
          db\<lparr>moods := moods db @
                [\<lparr>m_id = i, m_user_id = tok_id user, m_mood = m, m_timestamp = now\<rparr>],
             seq_moods := i\<rparr>)"
proof (cases rule: moods_post_cases [of ev b db user now])
  case rejected
  with assms show thesis by simp
next
  case (inserted m i)
  then show thesis by (rule that)
qed

lemma field_extra:
  "k \<noteq> ''user_id'' \<Longrightarrow> k \<noteq> ''timestamp'' \<Longrightarrow>
   field (b @ [(''user_id'', x), (''timestamp'', y)]) k = field b k"
  by (simp add: field_def)

lemma chats_post_depends:
  "field b' ''role'' = field b ''role'' \<Longrightarrow> field b' ''content'' = field b ''content'' \<Longrightarrow>
   chats_post ev now b' user db = chats_post ev now b user db"
  by (simp add: chats_post_def)

lemma moods_post_depends:
  "field b' ''mood'' = field b ''mood'' \<Longrightarrow>
   moods_post ev now b' user db = moods_post ev now b user db"
  by (simp add: moods_post_def)

section \<open>Login\<close>

text \<open>
  For passwords that are strings the two ways a login fails get the same answer: a
  registered email with a password that \<open>bcrypt_compare\<close> rejects, and an email that
  is in no row of the users table, are both answered with status 401 and
  \<^verbatim>\<open>{ error: "Invalid credentials" }\<close>, without a cookie, and the store is left as it
  was.
\<close>

lemma login_failures_same_for_string_passwords:
  assumes "field b1 ''email'' = JString e1"
    and "find (\<lambda>u. u_email u = Some e1) (users db) = Some u"
    and "field b1 ''password'' = JString p1"
    and "u_password u = Some h" and "\<not> bcrypt_compare ev p1 h"
    and "field b2 ''email'' = JString e2"
    and "find (\<lambda>u. u_email u = Some e2) (users db) = None"
  shows "server ev now \<lparr>cookies_token = c1, route = POST_auth_login b1\<rparr> db =
           (\<lparr>status = 401, body = Error_json ''Invalid credentials'', cookie = None\<rparr>, db)
       \<and> server ev now' \<lparr>cookies_token = c2, route = POST_auth_login b2\<rparr> db =
           (\<lparr>status = 401, body = Error_json ''Invalid credentials'', cookie = None\<rparr>, db)"
  using assms
  by (simp add: server_def auth_login_def select_user_by_email_string bcrypt_compare_js_def
      res_status_json_def)

text \<open>
  Claim C1 (a login with a registered email and a wrong password, and a login with an
  unknown email, get the identical \<^verbatim>\<open>InvalidCredentials\<close> response) does not hold of
  the handler: the password of the body is passed to \<^verbatim>\<open>bcrypt.compare\<close> unchecked.
  With the number 5 as password, the registered email gets no answer at all (the
  awaited comparison rejects and nothing catches it), while an unknown email is
  answered 401 as before, so the two causes can be told apart.
\<close>

theorem login_password_type_leak:
  "server demo_env (3::nat)
     \<lparr>cookies_token = None,
      route = POST_auth_login [(''email'', JString ''a@x.com''), (''password'', JNumber 5)]\<rparr>
     demo_db =
     (\<lparr>status = 0, body = No_response, cookie = None\<rparr>, demo_db)
   \<and> server demo_env (3::nat)
     \<lparr>cookies_token = None,
      route = POST_auth_login [(''email'', JString ''nobody@x.com''), (''password'', JNumber 5)]\<rparr>
     demo_db =
     (\<lparr>status = 401, body = Error_json ''Invalid credentials'', cookie = None\<rparr>, demo_db)"
  by (simp add: server_def auth_login_def field_def select_user_by_email_def text_affinity_def
      demo_db_def bcrypt_compare_js_def unhandled_rejection_def res_status_json_def)

section \<open>Signup\<close>

text \<open>
  Claim C2 as stated fails, in both halves. A signup with a registered email and the
  number 5 as password gets no answer at all, not status 400: the hash is awaited before
  the \<^verbatim>\<open>try\<close>. And a signup with a fresh email, against a users table that has reached
  the largest rowid, is answered 400 \<^verbatim>\<open>Email already exists\<close> and inserts nothing.
\<close>

theorem signup_outcomes_counterexample:
  "map u_email (users demo_db) = [Some ''a@x.com'', Some ''b@x.com'']
   \<and> server demo_env (3::nat)
       \<lparr>cookies_token = None,
        route = POST_auth_signup
          [(''email'', JString ''a@x.com''), (''password'', JNumber 5), (''name'', JString ''A2'')]\<rparr>
       demo_db =
     (\<lparr>status = 0, body = No_response, cookie = None\<rparr>, demo_db)
   \<and> map u_email (users exhausted_db) = [Some ''a@x.com'']
   \<and> map u_id (users exhausted_db) = [9223372036854775807]
   \<and> server demo_env (3::nat)
       \<lparr>cookies_token = None,
        route = POST_auth_signup
          [(''email'', JString ''c@x.com''), (''password'', JString ''pw3''), (''name'', JString ''C'')]\<rparr>
       exhausted_db =
     (\<lparr>status = 400, body = Error_json ''Email already exists'', cookie = None\<rparr>, exhausted_db)"
  by (simp add: server_def auth_signup_def field_def bcrypt_hash_js_def unhandled_rejection_def
      demo_db_def exhausted_db_def insert_user_strings next_rowid_def MAX_ROWID_def
      res_status_json_def)

text \<open>
  Claim C2, amended. For a signup whose email, password and name are strings: when the
  email is already in the users table the answer is status 400 with
  \<^verbatim>\<open>{ error: "Email already exists" }\<close> and the store is unchanged; when the email is in
  no row and the rowids of the users table are not exhausted, the answer is status 200
  with the profile and the session cookie, and the users table grows by exactly one
  row, which holds a rowid that no other row has, the email, the name and the hash of
  the password; the other tables are unchanged. The id of the profile is the rowid as a
  JavaScript number, the rowid itself below \<open>2 ^ 53\<close>.
\<close>

theorem signup_duplicate_email_rejected:
  assumes "field b ''email'' = JString email"
    and "field b ''password'' = JString password"
    and "field b ''name'' = JString name"
  shows "((\<exists>u \<in> set (users db). u_email u = Some email) \<longrightarrow>
      server ev now \<lparr>cookies_token = c, route = POST_auth_signup b\<rparr> db =
        (\<lparr>status = 400, body = Error_json ''Email already exists'', cookie = None\<rparr>, db))
   \<and> ((\<forall>u \<in> set (users db). u_email u \<noteq> Some email)
        \<and> fold max (map u_id (users db)) (seq_users db) < MAX_ROWID \<longrightarrow>
      (\<exists>rowid tok db'.
         server ev now \<lparr>cookies_token = c, route = POST_auth_signup b\<rparr> db =
           (\<lparr>status = 200,
             body = Profile_json \<lparr>tok_id = js_number_of_int64 rowid,
                                  tok_email = JString email, tok_name = JString name\<rparr>,
             cookie = Some (Set_cookie ''token'' tok True True ''none'')\<rparr>, db')
         \<and> users db' = users db @
              [\<lparr>u_id = rowid, u_email = Some email,
                u_password = Some (bcrypt_hash ev password 10), u_name = Some name\<rparr>]
         \<and> rowid \<notin> set (map u_id (users db))
         \<and> (\<bar>rowid\<bar> < 2 ^ 53 \<longrightarrow> js_number_of_int64 rowid = rowid)
         \<and> length (users db') = length (users db) + 1
         \<and> moods db' = moods db \<and> chats db' = chats db))"
proof (intro conjI impI)
  assume "\<exists>u \<in> set (users db). u_email u = Some email"
  then show "server ev now \<lparr>cookies_token = c, route = POST_auth_signup b\<rparr> db =
        (\<lparr>status = 400, body = Error_json ''Email already exists'', cookie = None\<rparr>, db)"
    using assms
    by (simp add: server_def auth_signup_def bcrypt_hash_js_def insert_user_strings
        res_status_json_def)
next
  let ?rowid = "fold max (map u_id (users db)) (seq_users db) + 1"
  assume a: "(\<forall>u \<in> set (users db). u_email u \<noteq> Some email)
        \<and> fold max (map u_id (users db)) (seq_users db) < MAX_ROWID"
  then have n: "next_rowid (seq_users db) (map u_id (users db)) = Some ?rowid"
    by (simp add: next_rowid_available)
  then have fresh: "?rowid \<notin> set (map u_id (users db))"
    by (rule next_rowid_fresh)
  have exact: "\<bar>?rowid\<bar> < 2 ^ 53 \<longrightarrow> js_number_of_int64 ?rowid = ?rowid"
    by (simp add: js_number_of_int64_exact)
  let ?tok = "jwt_sign ev \<lparr>tok_id = js_number_of_int64 ?rowid,
                             tok_email = JString email, tok_name = JString name\<rparr> (JWT_SECRET ev)"
  let ?db' = "db\<lparr>users := users db @
                  [\<lparr>u_id = ?rowid, u_email = Some email,
                    u_password = Some (bcrypt_hash ev password 10), u_name = Some name\<rparr>],
               seq_users := ?rowid\<rparr>"
  have s: "server ev now \<lparr>cookies_token = c, route = POST_auth_signup b\<rparr> db =
           (\<lparr>status = 200,
             body = Profile_json \<lparr>tok_id = js_number_of_int64 ?rowid,
                                  tok_email = JString email, tok_name = JString name\<rparr>,
             cookie = Some (Set_cookie ''token'' ?tok True True ''none'')\<rparr>, ?db')"
    using assms a n
    by (simp add: server_def auth_signup_def bcrypt_hash_js_def insert_user_strings Let_def)
  have u: "users ?db' = users db @
              [\<lparr>u_id = ?rowid, u_email = Some email,
                u_password = Some (bcrypt_hash ev password 10), u_name = Some name\<rparr>]"
    by simp
  have l: "length (users ?db') = length (users db) + 1"
    by simp
  have m: "moods ?db' = moods db" "chats ?db' = chats db"
    by simp_all
  from s u fresh exact l m show "\<exists>rowid tok db'.
         server ev now \<lparr>cookies_token = c, route = POST_auth_signup b\<rparr> db =
           (\<lparr>status = 200,
             body = Profile_json \<lparr>tok_id = js_number_of_int64 rowid,
                                  tok_email = JString email, tok_name = JString name\<rparr>,
             cookie = Some (Set_cookie ''token'' tok True True ''none'')\<rparr>, db')
         \<and> users db' = users db @
              [\<lparr>u_id = rowid, u_email = Some email,
                u_password = Some (bcrypt_hash ev password 10), u_name = Some name\<rparr>]
         \<and> rowid \<notin> set (map u_id (users db))
         \<and> (\<bar>rowid\<bar> < 2 ^ 53 \<longrightarrow> js_number_of_int64 rowid = rowid)
         \<and> length (users db') = length (users db) + 1
         \<and> moods db' = moods db \<and> chats db' = chats db"
    by blast
qed

theorem signup_duplicate_email_rejected_witness:
  "server demo_env (3::nat) \<lparr>cookies_token = None, route = POST_auth_signup signup_again\<rparr> demo_db =
        (\<lparr>status = 400, body = Error_json ''Email already exists'', cookie = None\<rparr>, demo_db)
   \<and> map u_email (users demo_db) = [Some ''a@x.com'', Some ''b@x.com'']
   \<and> map u_id (users (snd (server demo_env (3::nat)
        \<lparr>cookies_token = None, route = POST_auth_signup signup_carol\<rparr> demo_db))) = [1, 2, 3]
   \<and> body (fst (server demo_env (3::nat)
        \<lparr>cookies_token = None, route = POST_auth_signup signup_carol\<rparr> demo_db)) =
      Profile_json \<lparr>tok_id = 3, tok_email = JString ''c@x.com'', tok_name = JString ''C''\<rparr>"
proof -
  have fa: "field signup_again ''email'' = JString ''a@x.com''"
    "field signup_again ''password'' = JString ''pw2''"
    "field signup_again ''name'' = JString ''A2''"
    by (simp_all add: signup_again_def field_def)
  have fc: "field signup_carol ''email'' = JString ''c@x.com''"
    "field signup_carol ''password'' = JString ''pw3''"
    "field signup_carol ''name'' = JString ''C''"
    by (simp_all add: signup_carol_def field_def)
  have dup: "\<exists>u \<in> set (users demo_db). u_email u = Some ''a@x.com''"
    by (simp add: demo_db_def)
  have fresh: "(\<forall>u \<in> set (users demo_db). u_email u \<noteq> Some ''c@x.com'')
        \<and> fold max (map u_id (users demo_db)) (seq_users demo_db) < MAX_ROWID"
    by (simp add: demo_db_def MAX_ROWID_def)
  have emails: "map u_email (users demo_db) = [Some ''a@x.com'', Some ''b@x.com'']"
    by (simp add: demo_db_def)
  from signup_duplicate_email_rejected [OF fa, of demo_db demo_env "3::nat" None] dup
  have one: "server demo_env (3::nat)
        \<lparr>cookies_token = None, route = POST_auth_signup signup_again\<rparr> demo_db =
        (\<lparr>status = 400, body = Error_json ''Email already exists'', cookie = None\<rparr>, demo_db)"
    by blast
  from signup_duplicate_email_rejected [OF fc, of demo_db demo_env "3::nat" None] fresh
  obtain rowid tok db' where
    s: "server demo_env (3::nat)
          \<lparr>cookies_token = None, route = POST_auth_signup signup_carol\<rparr> demo_db =
        (\<lparr>status = 200,
          body = Profile_json \<lparr>tok_id = js_number_of_int64 rowid,
                               tok_email = JString ''c@x.com'', tok_name = JString ''C''\<rparr>,
          cookie = Some (Set_cookie ''token'' tok True True ''none'')\<rparr>, db')"
    and u: "users db' = users demo_db @
              [\<lparr>u_id = rowid, u_email = Some ''c@x.com'',
                u_password = Some (bcrypt_hash demo_env ''pw3'' 10), u_name = Some ''C''\<rparr>]"
    and e: "\<bar>rowid\<bar> < 2 ^ 53 \<longrightarrow> js_number_of_int64 rowid = rowid"
    by blast
  have "map u_id (users (snd (server demo_env (3::nat)
        \<lparr>cookies_token = None, route = POST_auth_signup signup_carol\<rparr> demo_db))) = [1, 2, 3]"
    using fc
    by (simp add: server_def auth_signup_def bcrypt_hash_js_def insert_user_strings
        demo_db_def next_rowid_def MAX_ROWID_def Let_def)
  with s u have r: "rowid = 3"
    by (simp add: demo_db_def)
  then have "js_number_of_int64 rowid = 3" using e by simp
  with s have two: "body (fst (server demo_env (3::nat)
        \<lparr>cookies_token = None, route = POST_auth_signup signup_carol\<rparr> demo_db)) =
      Profile_json \<lparr>tok_id = 3, tok_email = JString ''c@x.com'', tok_name = JString ''C''\<rparr>"
    by simp
  have three: "map u_id (users (snd (server demo_env (3::nat)
        \<lparr>cookies_token = None, route = POST_auth_signup signup_carol\<rparr> demo_db))) = [1, 2, 3]"
    using s u r by (simp add: demo_db_def)
  from one emails three two show ?thesis by blast
qed

section \<open>The session gate\<close>

text \<open>
  Claim C3 as stated fails: a protected endpoint called with a token that
  \<open>jwt_verify\<close> rejects is answered with status 403, not 401.
\<close>

theorem invalid_token_status_counterexample:
  "protected GET_auth_me
   \<and> jwt_verify demo_env ''forged'' (JWT_SECRET demo_env) = None
   \<and> status (fst (server demo_env (3::nat)
        \<lparr>cookies_token = Some ''forged'', route = GET_auth_me\<rparr> demo_db)) = 403
   \<and> status (fst (server demo_env (3::nat)
        \<lparr>cookies_token = Some ''forged'', route = GET_auth_me\<rparr> demo_db)) \<noteq> 401"
  by (simp add: server_def authenticateToken_def demo_env_def res_status_json_def)

text \<open>
  Claim C3, amended. Whatever handler \<open>k\<close> stands behind the middleware: with no token
  (or the empty one) the answer is status 401 with \<^verbatim>\<open>{ error: "Unauthorized" }\<close>; with a
  token that \<open>jwt_verify\<close> rejects it is status 403 with \<^verbatim>\<open>{ error: "Forbidden" }\<close>; in
  both cases the store is unchanged and the answer does not depend on \<open>k\<close>, and this is
  the answer of every protected endpoint. With a token that verifies, the handler runs
  on the decoded identity, which \<^verbatim>\<open>GET /api/auth/me\<close> returns.
\<close>

theorem authenticateToken_gate:
  "(cookies_token req = None \<or> cookies_token req = Some [] \<longrightarrow>
      authenticateToken ev req k db =
        (\<lparr>status = 401, body = Error_json ''Unauthorized'', cookie = None\<rparr>, db)
      \<and> (protected (route req) \<longrightarrow> server ev now req db =
        (\<lparr>status = 401, body = Error_json ''Unauthorized'', cookie = None\<rparr>, db)))
   \<and> (cookies_token req = Some tok \<and> tok \<noteq> [] \<and> jwt_verify ev tok (JWT_SECRET ev) = None \<longrightarrow>
      authenticateToken ev req k db =
        (\<lparr>status = 403, body = Error_json ''Forbidden'', cookie = None\<rparr>, db)
      \<and> (protected (route req) \<longrightarrow> server ev now req db =
        (\<lparr>status = 403, body = Error_json ''Forbidden'', cookie = None\<rparr>, db)))
   \<and> (cookies_token req = Some tok \<and> tok \<noteq> [] \<and>
       jwt_verify ev tok (JWT_SECRET ev) = Some user \<longrightarrow>
      authenticateToken ev req k db = k user db
      \<and> (route req = GET_auth_me \<longrightarrow> server ev now req db =
        (\<lparr>status = 200, body = Profile_json user, cookie = None\<rparr>, db)))"
proof -
  have missing: "server ev now req db =
        (\<lparr>status = 401, body = Error_json ''Unauthorized'', cookie = None\<rparr>, db)"
    if "cookies_token req = None \<or> cookies_token req = Some []" and "protected (route req)"
  proof -
    from that(2) obtain n where "server ev now req db = authenticateToken ev req n db"
      using server_protected by blast
    with that(1) show ?thesis by (simp add: authenticateToken_missing)
  qed
  have invalid: "server ev now req db =
        (\<lparr>status = 403, body = Error_json ''Forbidden'', cookie = None\<rparr>, db)"
    if "cookies_token req = Some tok" and "tok \<noteq> []"
      and "jwt_verify ev tok (JWT_SECRET ev) = None" and "protected (route req)"
  proof -
    from that(4) obtain n where "server ev now req db = authenticateToken ev req n db"
      using server_protected by blast
    with that(1,2,3) show ?thesis by (simp add: authenticateToken_invalid)
  qed
  have me: "server ev now req db =
        (\<lparr>status = 200, body = Profile_json user, cookie = None\<rparr>, db)"
    if "cookies_token req = Some tok" and "tok \<noteq> []"
      and "jwt_verify ev tok (JWT_SECRET ev) = Some user" and "route req = GET_auth_me"
    using that by (simp add: server_def authenticateToken_valid auth_me_def res_json_def)
  show ?thesis
    using missing invalid me authenticateToken_missing [of req ev k db]
      authenticateToken_invalid [of req tok ev k db] authenticateToken_valid [of req tok ev user k db]
    by blast
qed

theorem authenticateToken_gate_witness:
  "server demo_env (3::nat) \<lparr>cookies_token = None, route = GET_chats\<rparr> demo_db =
     (\<lparr>status = 401, body = Error_json ''Unauthorized'', cookie = None\<rparr>, demo_db)
   \<and> server demo_env (3::nat)
       \<lparr>cookies_token = Some ''forged'',
        route = POST_chats [(''role'', JString ''user''), (''content'', JString ''hi'')]\<rparr> demo_db =
     (\<lparr>status = 403, body = Error_json ''Forbidden'', cookie = None\<rparr>, demo_db)
   \<and> server demo_env (3::nat) \<lparr>cookies_token = Some ''tokenA'', route = GET_auth_me\<rparr> demo_db =
     (\<lparr>status = 200, body = Profile_json alice, cookie = None\<rparr>, demo_db)"
proof -
  have v: "jwt_verify demo_env ''forged'' (JWT_SECRET demo_env) = None"
    "jwt_verify demo_env ''tokenA'' (JWT_SECRET demo_env) = Some alice"
    by (simp_all add: demo_env_def)
  have one: "server demo_env (3::nat) \<lparr>cookies_token = None, route = GET_chats\<rparr> demo_db =
     (\<lparr>status = 401, body = Error_json ''Unauthorized'', cookie = None\<rparr>, demo_db)"
    using authenticateToken_gate
      [of "\<lparr>cookies_token = None, route = GET_chats\<rparr>" demo_env chats_get demo_db "3::nat"]
    by simp
  have two: "server demo_env (3::nat)
       \<lparr>cookies_token = Some ''forged'',
        route = POST_chats [(''role'', JString ''user''), (''content'', JString ''hi'')]\<rparr> demo_db =
     (\<lparr>status = 403, body = Error_json ''Forbidden'', cookie = None\<rparr>, demo_db)"
    using v(1) authenticateToken_gate
      [of "\<lparr>cookies_token = Some ''forged'',
        route = POST_chats [(''role'', JString ''user''), (''content'', JString ''hi'')]\<rparr>" demo_env chats_get demo_db "3::nat"
          "''forged''"]
    by simp
  have three: "server demo_env (3::nat) \<lparr>cookies_token = Some ''tokenA'', route = GET_auth_me\<rparr> demo_db =
     (\<lparr>status = 200, body = Profile_json alice, cookie = None\<rparr>, demo_db)"
    using v(2) authenticateToken_gate
      [of "\<lparr>cookies_token = Some ''tokenA'', route = GET_auth_me\<rparr>" demo_env auth_me demo_db "3::nat"
          "''tokenA''" alice]
    by simp
  from one two three show ?thesis by blast
qed

section \<open>Listing\<close>

text \<open>
  Claim C4. For every store and every authenticated user, \<^verbatim>\<open>GET /api/chats\<close> and
  \<^verbatim>\<open>GET /api/moods\<close> answer 200 with that user's rows in non-decreasing timestamp
  order: the listed rows are exactly the rows of the table owned by the user, as many as
  there are, and the store is unchanged.
\<close>

theorem listings_sorted_by_timestamp:
  assumes "tok \<noteq> []" and "jwt_verify ev tok (JWT_SECRET ev) = Some user"
  shows "(\<exists>rows.
            server ev now \<lparr>cookies_token = Some tok, route = GET_chats\<rparr> db =
              (\<lparr>status = 200, body = Chats_json rows, cookie = None\<rparr>, db)
            \<and> sorted (map c_timestamp rows)
            \<and> set rows = {c \<in> set (chats db). c_user_id c = tok_id user}
            \<and> length rows = length (filter (\<lambda>c. c_user_id c = tok_id user) (chats db)))
       \<and> (\<exists>rows.
            server ev now \<lparr>cookies_token = Some tok, route = GET_moods\<rparr> db =
              (\<lparr>status = 200, body = Moods_json rows, cookie = None\<rparr>, db)
            \<and> sorted (map m_timestamp rows)
            \<and> set rows = {m \<in> set (moods db). m_user_id m = tok_id user}
            \<and> length rows = length (filter (\<lambda>m. m_user_id m = tok_id user) (moods db)))"
proof (rule conjI)
  have "server ev now \<lparr>cookies_token = Some tok, route = GET_chats\<rparr> db =
          (\<lparr>status = 200, body = Chats_json (select_chats (tok_id user) db), cookie = None\<rparr>, db)"
    using assms by (simp add: server_def authenticateToken_valid chats_get_def res_json_def)
  then show "\<exists>rows.
            server ev now \<lparr>cookies_token = Some tok, route = GET_chats\<rparr> db =
              (\<lparr>status = 200, body = Chats_json rows, cookie = None\<rparr>, db)
            \<and> sorted (map c_timestamp rows)
            \<and> set rows = {c \<in> set (chats db). c_user_id c = tok_id user}
            \<and> length rows = length (filter (\<lambda>c. c_user_id c = tok_id user) (chats db))"
    using sorted_select_chats set_select_chats length_select_chats by blast
next
  have "server ev now \<lparr>cookies_token = Some tok, route = GET_moods\<rparr> db =
          (\<lparr>status = 200, body = Moods_json (select_moods (tok_id user) db), cookie = None\<rparr>, db)"
    using assms by (simp add: server_def authenticateToken_valid moods_get_def res_json_def)
  then show "\<exists>rows.
            server ev now \<lparr>cookies_token = Some tok, route = GET_moods\<rparr> db =
              (\<lparr>status = 200, body = Moods_json rows, cookie = None\<rparr>, db)
            \<and> sorted (map m_timestamp rows)
            \<and> set rows = {m \<in> set (moods db). m_user_id m = tok_id user}
            \<and> length rows = length (filter (\<lambda>m. m_user_id m = tok_id user) (moods db))"
    using sorted_select_moods set_select_moods length_select_moods by blast
qed

theorem listings_sorted_by_timestamp_witness:
  "body (fst (server demo_env (40::nat) \<lparr>cookies_token = Some ''tokenA'', route = GET_chats\<rparr> demo_log)) =
     Chats_json
       [\<lparr>c_id = 3, c_user_id = 1, c_role = Some ''bot'', c_content = Some ''earlier'', c_timestamp = 10\<rparr>,
        \<lparr>c_id = 1, c_user_id = 1, c_role = Some ''user'', c_content = Some ''later'', c_timestamp = 30\<rparr>]
   \<and> sorted (map c_timestamp (select_chats 1 demo_log))
   \<and> sorted (map m_timestamp (select_moods 1 demo_log))"
proof -
  have v: "''tokenA'' \<noteq> []" "jwt_verify demo_env ''tokenA'' (JWT_SECRET demo_env) = Some alice"
    by (simp_all add: demo_env_def)
  have eval: "body (fst (server demo_env (40::nat) \<lparr>cookies_token = Some ''tokenA'', route = GET_chats\<rparr> demo_log)) =
     Chats_json
       [\<lparr>c_id = 3, c_user_id = 1, c_role = Some ''bot'', c_content = Some ''earlier'', c_timestamp = 10\<rparr>,
        \<lparr>c_id = 1, c_user_id = 1, c_role = Some ''user'', c_content = Some ''later'', c_timestamp = 30\<rparr>]"
    by (simp add: server_def authenticateToken_def demo_env_def alice_def chats_get_def res_json_def
        select_chats_def demo_log_def demo_db_def)
  from listings_sorted_by_timestamp [OF v, of "40::nat" demo_log]
  obtain rows mrows where
    c: "server demo_env (40::nat) \<lparr>cookies_token = Some ''tokenA'', route = GET_chats\<rparr> demo_log =
          (\<lparr>status = 200, body = Chats_json rows, cookie = None\<rparr>, demo_log)"
       "sorted (map c_timestamp rows)"
    and m: "server demo_env (40::nat) \<lparr>cookies_token = Some ''tokenA'', route = GET_moods\<rparr> demo_log =
          (\<lparr>status = 200, body = Moods_json mrows, cookie = None\<rparr>, demo_log)"
       "sorted (map m_timestamp mrows)"
    by blast
  have "rows = select_chats 1 demo_log"
    using c(1) v by (simp add: server_def authenticateToken_valid chats_get_def res_json_def alice_def)
  moreover have "mrows = select_moods 1 demo_log"
    using m(1) v by (simp add: server_def authenticateToken_valid moods_get_def res_json_def alice_def)
  ultimately show ?thesis using eval c(2) m(2) by simp
qed

section \<open>Clearing the conversation\<close>

text \<open>
  Claim C5. For every store and every authenticated user, \<^verbatim>\<open>DELETE /api/chats\<close>
  answers with the ack and removes exactly the chat rows owned by that user: none of
  the user's rows is left, the rows of every other user are the same rows in the same
  order, every other user's listing is unchanged, and the users and moods tables are
  untouched.
\<close>

theorem delete_chats_removes_exactly_own_rows:
  assumes "tok \<noteq> []" and "jwt_verify ev tok (JWT_SECRET ev) = Some user"
  shows "\<exists>db'.
           server ev now \<lparr>cookies_token = Some tok, route = DELETE_chats\<rparr> db =
             (\<lparr>status = 200, body = Success_json True, cookie = None\<rparr>, db')
         \<and> chats db' = filter (\<lambda>c. c_user_id c \<noteq> tok_id user) (chats db)
         \<and> \<not> (\<exists>c \<in> set (chats db'). c_user_id c = tok_id user)
         \<and> filter (\<lambda>c. c_user_id c \<noteq> tok_id user) (chats db') =
             filter (\<lambda>c. c_user_id c \<noteq> tok_id user) (chats db)
         \<and> select_chats (tok_id user) db' = []
         \<and> (\<forall>uid. uid \<noteq> tok_id user \<longrightarrow> select_chats uid db' = select_chats uid db)
         \<and> users db' = users db \<and> moods db' = moods db"
proof -
  let ?db' = "delete_chats_of (tok_id user) db"
  have r: "server ev now \<lparr>cookies_token = Some tok, route = DELETE_chats\<rparr> db =
             (\<lparr>status = 200, body = Success_json True, cookie = None\<rparr>, ?db')"
    using assms by (simp add: server_valid_route chats_delete_def res_json_def)
  have c: "chats ?db' = filter (\<lambda>c. c_user_id c \<noteq> tok_id user) (chats db)"
    by (simp add: delete_chats_of_def)
  have own: "filter (\<lambda>c. c_user_id c = tok_id user) (chats ?db') = []"
    unfolding c by (simp add: filter_empty_conv)
  have other: "filter (\<lambda>c. c_user_id c = uid) (chats ?db') =
               filter (\<lambda>c. c_user_id c = uid) (chats db)" if "uid \<noteq> tok_id user" for uid
    unfolding c using that by (auto intro: filter_cong)
  have "\<not> (\<exists>c \<in> set (chats ?db'). c_user_id c = tok_id user)"
    unfolding c by simp
  moreover have "filter (\<lambda>c. c_user_id c \<noteq> tok_id user) (chats ?db') =
             filter (\<lambda>c. c_user_id c \<noteq> tok_id user) (chats db)"
    unfolding c by simp
  moreover have "select_chats (tok_id user) ?db' = []"
    using own by (simp add: select_chats_def)
  moreover have "\<forall>uid. uid \<noteq> tok_id user \<longrightarrow> select_chats uid ?db' = select_chats uid db"
    using other by (simp add: select_chats_def)
  moreover have "users ?db' = users db \<and> moods ?db' = moods db"
    by (simp add: delete_chats_of_def)
  ultimately show ?thesis using r c by blast
qed

theorem delete_chats_removes_exactly_own_rows_witness:
  "chats (snd (server demo_env (40::nat) \<lparr>cookies_token = Some ''tokenA'', route = DELETE_chats\<rparr> demo_log)) =
     [\<lparr>c_id = 2, c_user_id = 2, c_role = Some ''user'', c_content = Some ''other'', c_timestamp = 12\<rparr>]
   \<and> select_chats 2 (snd (server demo_env (40::nat)
        \<lparr>cookies_token = Some ''tokenA'', route = DELETE_chats\<rparr> demo_log)) = select_chats 2 demo_log"
proof -
  have v: "''tokenA'' \<noteq> []" "jwt_verify demo_env ''tokenA'' (JWT_SECRET demo_env) = Some alice"
    by (simp_all add: demo_env_def)
  from delete_chats_removes_exactly_own_rows [OF v, of "40::nat" demo_log]
  obtain db' where
    r: "server demo_env (40::nat) \<lparr>cookies_token = Some ''tokenA'', route = DELETE_chats\<rparr> demo_log =
         (\<lparr>status = 200, body = Success_json True, cookie = None\<rparr>, db')"
    and c: "chats db' = filter (\<lambda>c. c_user_id c \<noteq> tok_id alice) (chats demo_log)"
    and o: "\<forall>uid. uid \<noteq> tok_id alice \<longrightarrow> select_chats uid db' = select_chats uid demo_log"
    by blast
  have "chats db' =
     [\<lparr>c_id = 2, c_user_id = 2, c_role = Some ''user'', c_content = Some ''other'', c_timestamp = 12\<rparr>]"
    unfolding c by (simp add: alice_def demo_log_def demo_db_def)
  moreover have "select_chats 2 db' = select_chats 2 demo_log"
    using o by (simp add: alice_def)
  ultimately show ?thesis using r by simp
qed

section \<open>Appending and listing\<close>

text \<open>
  Claim C6 as stated fails: a message posted with the number 5 as content is
  acknowledged, and the following listing holds it with the content \<^verbatim>\<open>"5.0"\<close>, a string
  and not the number that was submitted.
\<close>

theorem number_content_reencoded_counterexample:
  "field number_content ''content'' = JNumber 5
   \<and> server demo_env (40::nat)
        \<lparr>cookies_token = Some ''tokenA'', route = POST_chats number_content\<rparr> demo_db =
      (\<lparr>status = 200, body = Success_json True, cookie = None\<rparr>,
       demo_db\<lparr>chats := [\<lparr>c_id = 1, c_user_id = 1, c_role = Some ''user'',
                            c_content = Some ''5.0'', c_timestamp = 40\<rparr>],
               seq_chats := 1\<rparr>)
   \<and> body (fst (server demo_env (41::nat) \<lparr>cookies_token = Some ''tokenA'', route = GET_chats\<rparr>
       (snd (server demo_env (40::nat)
          \<lparr>cookies_token = Some ''tokenA'', route = POST_chats number_content\<rparr> demo_db)))) =
     Chats_json [\<lparr>c_id = 1, c_user_id = 1, c_role = Some ''user'',
                  c_content = Some ''5.0'', c_timestamp = 40\<rparr>]
   \<and> map_of (chat_json \<lparr>c_id = 1, c_user_id = 1, c_role = Some ''user'',
                  c_content = Some ''5.0'', c_timestamp = 40::nat\<rparr>) ''content'' =
       Some (Json (JString ''5.0''))
   \<and> JString ''5.0'' \<noteq> JNumber 5"
  by (simp add: number_content_def field_def server_def authenticateToken_def demo_env_def
      alice_def chats_post_def insert_chat_def chat_columns_def text_affinity_def
      foreign_key_ok_def demo_db_def next_rowid_def MAX_ROWID_def res_json_def
      chats_get_def select_chats_def chat_json_def json_of_text_def)

text \<open>
  Claim C6, amended. A user with a valid token, whose id is a row of the users table
  where the foreign key is enforced, posts a message whose role and content are
  strings, while the rowids of the chats table are not exhausted: the post is
  acknowledged, and a following \<^verbatim>\<open>GET /api/chats\<close> of that user lists a message with
  exactly that role and that content, as stored and as sent, owned by the user.
\<close>

theorem chat_append_list_roundtrip:
  assumes "tok \<noteq> []" and "jwt_verify ev tok (JWT_SECRET ev) = Some user"
    and "field b ''role'' = JString r" and "field b ''content'' = JString c"
    and "foreign_key_ok ev db (tok_id user)"
    and "fold max (map c_id (chats db)) (seq_chats db) < MAX_ROWID"
  shows "\<exists>db1 rows.
           server ev now \<lparr>cookies_token = Some tok, route = POST_chats b\<rparr> db =
             (\<lparr>status = 200, body = Success_json True, cookie = None\<rparr>, db1)
         \<and> server ev now' \<lparr>cookies_token = Some tok, route = GET_chats\<rparr> db1 =
             (\<lparr>status = 200, body = Chats_json rows, cookie = None\<rparr>, db1)
         \<and> (\<exists>m \<in> set rows. c_role m = Some r \<and> c_content m = Some c
               \<and> c_user_id m = tok_id user \<and> c_timestamp m = now
               \<and> map_of (chat_json m) ''role'' = Some (Json (JString r))
               \<and> map_of (chat_json m) ''content'' = Some (Json (JString c)))"
proof -
  let ?i = "fold max (map c_id (chats db)) (seq_chats db) + 1"
  let ?m = "\<lparr>c_id = ?i, c_user_id = tok_id user, c_role = Some r, c_content = Some c,
              c_timestamp = now\<rparr>"
  let ?db1 = "db\<lparr>chats := chats db @ [?m], seq_chats := ?i\<rparr>"
  have cols: "chat_columns ev (field b ''role'') (field b ''content'') = Some (Some r, Some c)"
    using assms(3,4) by (simp add: chat_columns_strings)
  have n: "next_rowid (seq_chats db) (map c_id (chats db)) = Some ?i"
    using assms(6) by (rule next_rowid_available)
  have p: "server ev now \<lparr>cookies_token = Some tok, route = POST_chats b\<rparr> db =
             (\<lparr>status = 200, body = Success_json True, cookie = None\<rparr>, ?db1)"
    using assms(1,2) chats_post_ok [OF cols assms(5) n] by (simp add: server_valid_route)
  have g: "server ev now' \<lparr>cookies_token = Some tok, route = GET_chats\<rparr> ?db1 =
             (\<lparr>status = 200, body = Chats_json (select_chats (tok_id user) ?db1), cookie = None\<rparr>,
              ?db1)"
    using assms(1,2) by (simp add: server_valid_route chats_get_def res_json_def)
  have "?m \<in> set (select_chats (tok_id user) ?db1)"
    by (simp add: set_select_chats)
  then have "\<exists>m \<in> set (select_chats (tok_id user) ?db1).
      c_role m = Some r \<and> c_content m = Some c
        \<and> c_user_id m = tok_id user \<and> c_timestamp m = now
        \<and> map_of (chat_json m) ''role'' = Some (Json (JString r))
        \<and> map_of (chat_json m) ''content'' = Some (Json (JString c))"
    by (rule rev_bexI) (simp add: chat_json_text json_of_text_def)
  with p g show ?thesis by blast
qed

theorem chat_append_list_roundtrip_witness:
  "body (fst (server demo_env (41::nat) \<lparr>cookies_token = Some ''tokenA'', route = GET_chats\<rparr>
     (snd (server demo_env (40::nat)
        \<lparr>cookies_token = Some ''tokenA'', route = POST_chats hello_from_alice\<rparr> demo_db)))) =
   Chats_json [\<lparr>c_id = 1, c_user_id = 1, c_role = Some ''user'',
                c_content = Some ''**hello** <b>world</b>'', c_timestamp = 40\<rparr>]"
proof -
  have v: "''tokenA'' \<noteq> []" "jwt_verify demo_env ''tokenA'' (JWT_SECRET demo_env) = Some alice"
    "field hello_from_alice ''role'' = JString ''user''"
    "field hello_from_alice ''content'' = JString ''**hello** <b>world</b>''"
    "foreign_key_ok demo_env demo_db (tok_id alice)"
    "fold max (map c_id (chats demo_db)) (seq_chats demo_db) < MAX_ROWID"
    by (simp_all add: demo_env_def hello_from_alice_def field_def foreign_key_ok_def
        demo_db_def alice_def MAX_ROWID_def)
  from chat_append_list_roundtrip [OF v, of "40::nat" "41::nat"]
  obtain db1 rows where
    p: "server demo_env (40::nat)
          \<lparr>cookies_token = Some ''tokenA'', route = POST_chats hello_from_alice\<rparr> demo_db =
        (\<lparr>status = 200, body = Success_json True, cookie = None\<rparr>, db1)"
    and g: "server demo_env (41::nat) \<lparr>cookies_token = Some ''tokenA'', route = GET_chats\<rparr> db1 =
        (\<lparr>status = 200, body = Chats_json rows, cookie = None\<rparr>, db1)"
    by blast
  have cols: "chat_columns demo_env (field hello_from_alice ''role'')
      (field hello_from_alice ''content'') = Some (Some ''user'', Some ''**hello** <b>world</b>'')"
    using v(3,4) by (simp add: chat_columns_strings)
  have n: "next_rowid (seq_chats demo_db) (map c_id (chats demo_db)) = Some 1"
    by (simp add: next_rowid_def demo_db_def MAX_ROWID_def)
  have d: "db1 = demo_db\<lparr>chats := [\<lparr>c_id = 1, c_user_id = 1, c_role = Some ''user'',
                c_content = Some ''**hello** <b>world</b>'', c_timestamp = 40\<rparr>], seq_chats := 1\<rparr>"
    using p v(1,2) chats_post_ok [OF cols v(5) n, of "40::nat"]
    by (simp add: server_valid_route alice_def demo_db_def)
  have "rows = [\<lparr>c_id = 1, c_user_id = 1, c_role = Some ''user'',
                c_content = Some ''**hello** <b>world</b>'', c_timestamp = 40\<rparr>]"
    using g v(1,2) unfolding d
    by (simp add: server_valid_route chats_get_def res_json_def select_chats_def alice_def)
  with p g show ?thesis by simp
qed

text \<open>
  Claim C7. Two users with different ids each post one chat message that the server
  acknowledges, A first and then B. A's listing then holds only rows owned by A, no row
  owned by B, and A's message with the role and content the INSERT stored (the strings
  of the body, when they are strings); and when A had no chat rows before, the listing
  is exactly A's one message. In every store, however it came about, A's listing holds
  rows owned by A only.
\<close>

theorem chat_listing_isolated_per_user:
  assumes "tokA \<noteq> []" and "jwt_verify ev tokA (JWT_SECRET ev) = Some userA"
    and "tokB \<noteq> []" and "jwt_verify ev tokB (JWT_SECRET ev) = Some userB"
    and "tok_id userA \<noteq> tok_id userB"
    and "status (fst (server ev t1 \<lparr>cookies_token = Some tokA, route = POST_chats bA\<rparr> db)) = 200"
    and "status (fst (server ev t2 \<lparr>cookies_token = Some tokB, route = POST_chats bB\<rparr>
           (snd (server ev t1 \<lparr>cookies_token = Some tokA, route = POST_chats bA\<rparr> db)))) = 200"
  shows "(\<exists>rows rA cA.
            server ev t3 \<lparr>cookies_token = Some tokA, route = GET_chats\<rparr>
              (snd (server ev t2 \<lparr>cookies_token = Some tokB, route = POST_chats bB\<rparr>
                (snd (server ev t1 \<lparr>cookies_token = Some tokA, route = POST_chats bA\<rparr> db)))) =
            (\<lparr>status = 200, body = Chats_json rows, cookie = None\<rparr>,
             snd (server ev t2 \<lparr>cookies_token = Some tokB, route = POST_chats bB\<rparr>
                (snd (server ev t1 \<lparr>cookies_token = Some tokA, route = POST_chats bA\<rparr> db))))
          \<and> \<not> (\<exists>m \<in> set rows. c_user_id m \<noteq> tok_id userA)
          \<and> \<not> (\<exists>m \<in> set rows. c_user_id m = tok_id userB)
          \<and> chat_columns ev (field bA ''role'') (field bA ''content'') = Some (rA, cA)
          \<and> (\<forall>r c. field bA ''role'' = JString r \<and> field bA ''content'' = JString c \<longrightarrow>
                rA = Some r \<and> cA = Some c)
          \<and> (\<exists>m \<in> set rows. c_role m = rA \<and> c_content m = cA)
          \<and> (\<not> (\<exists>c \<in> set (chats db). c_user_id c = tok_id userA) \<longrightarrow>
               (\<exists>i. next_rowid (seq_chats db) (map c_id (chats db)) = Some i
                  \<and> rows = [\<lparr>c_id = i, c_user_id = tok_id userA, c_role = rA,
                              c_content = cA, c_timestamp = t1\<rparr>])))
       \<and> (\<exists>rows0.
            server ev t0 \<lparr>cookies_token = Some tokA, route = GET_chats\<rparr> db0 =
              (\<lparr>status = 200, body = Chats_json rows0, cookie = None\<rparr>, db0)
          \<and> (\<forall>m \<in> set rows0. c_user_id m = tok_id userA \<and> c_user_id m \<noteq> tok_id userB))"
proof -
  have pa: "server ev t1 \<lparr>cookies_token = Some tokA, route = POST_chats bA\<rparr> db =
              chats_post ev t1 bA userA db"
    using assms(1,2) by (simp add: server_valid_route)
  with assms(6) have "status (fst (chats_post ev t1 bA userA db)) = 200" by simp
  then obtain rA cA i where
    colsA: "chat_columns ev (field bA ''role'') (field bA ''content'') = Some (rA, cA)"
    and nA: "next_rowid (seq_chats db) (map c_id (chats db)) = Some i"
    and postA: "chats_post ev t1 bA userA db =
         (\<lparr>status = 200, body = Success_json True, cookie = None\<rparr>,
          db\<lparr>chats := chats db @
                [\<lparr>c_id = i, c_user_id = tok_id userA, c_role = rA, c_content = cA,
                  c_timestamp = t1\<rparr>],
             seq_chats := i\<rparr>)"
    by (rule chats_post_acknowledged)
  let ?mA = "\<lparr>c_id = i, c_user_id = tok_id userA, c_role = rA, c_content = cA,
               c_timestamp = t1\<rparr>"
  let ?db1 = "db\<lparr>chats := chats db @ [?mA], seq_chats := i\<rparr>"
  have s1: "snd (server ev t1 \<lparr>cookies_token = Some tokA, route = POST_chats bA\<rparr> db) = ?db1"
    using pa postA by simp
  have pb: "server ev t2 \<lparr>cookies_token = Some tokB, route = POST_chats bB\<rparr> ?db1 =
              chats_post ev t2 bB userB ?db1"
    using assms(3,4) by (simp add: server_valid_route)
  with assms(7) s1 have "status (fst (chats_post ev t2 bB userB ?db1)) = 200" by simp
  then obtain rB cB j where
    postB: "chats_post ev t2 bB userB ?db1 =
         (\<lparr>status = 200, body = Success_json True, cookie = None\<rparr>,
          ?db1\<lparr>chats := chats ?db1 @
                [\<lparr>c_id = j, c_user_id = tok_id userB, c_role = rB, c_content = cB,
                  c_timestamp = t2\<rparr>],
             seq_chats := j\<rparr>)"
    by (rule chats_post_acknowledged)
  let ?mB = "\<lparr>c_id = j, c_user_id = tok_id userB, c_role = rB, c_content = cB,
               c_timestamp = t2\<rparr>"
  let ?db2 = "?db1\<lparr>chats := chats ?db1 @ [?mB], seq_chats := j\<rparr>"
  have s2: "snd (server ev t2 \<lparr>cookies_token = Some tokB, route = POST_chats bB\<rparr> ?db1) = ?db2"
    using pb postB by simp
  have g: "server ev t3 \<lparr>cookies_token = Some tokA, route = GET_chats\<rparr> ?db2 =
             (\<lparr>status = 200, body = Chats_json (select_chats (tok_id userA) ?db2), cookie = None\<rparr>,
              ?db2)"
    using assms(1,2) by (simp add: server_valid_route chats_get_def res_json_def)
  have own: "\<not> (\<exists>m \<in> set (select_chats (tok_id userA) ?db2). c_user_id m \<noteq> tok_id userA)"
    by (simp add: set_select_chats)
  have notB: "\<not> (\<exists>m \<in> set (select_chats (tok_id userA) ?db2). c_user_id m = tok_id userB)"
    using assms(5) by (auto simp add: set_select_chats)
  have strings: "\<forall>r c. field bA ''role'' = JString r \<and> field bA ''content'' = JString c \<longrightarrow>
                rA = Some r \<and> cA = Some c"
    using colsA by (auto simp add: chat_columns_strings)
  have "?mA \<in> set (select_chats (tok_id userA) ?db2)"
    by (simp add: set_select_chats)
  then have mem: "\<exists>m \<in> set (select_chats (tok_id userA) ?db2). c_role m = rA \<and> c_content m = cA"
    by (rule rev_bexI) simp
  have single: "\<exists>i'. next_rowid (seq_chats db) (map c_id (chats db)) = Some i'
      \<and> select_chats (tok_id userA) ?db2 =
          [\<lparr>c_id = i', c_user_id = tok_id userA, c_role = rA, c_content = cA, c_timestamp = t1\<rparr>]"
    if "\<not> (\<exists>c \<in> set (chats db). c_user_id c = tok_id userA)"
  proof -
    from that have "filter (\<lambda>c. c_user_id c = tok_id userA) (chats db) = []"
      by (simp add: filter_empty_conv)
    then have "select_chats (tok_id userA) ?db2 = [?mA]"
      using assms(5) by (simp add: select_chats_def)
    with nA show ?thesis by blast
  qed
  have scenario: "\<exists>rows rA cA.
            server ev t3 \<lparr>cookies_token = Some tokA, route = GET_chats\<rparr>
              (snd (server ev t2 \<lparr>cookies_token = Some tokB, route = POST_chats bB\<rparr>
                (snd (server ev t1 \<lparr>cookies_token = Some tokA, route = POST_chats bA\<rparr> db)))) =
            (\<lparr>status = 200, body = Chats_json rows, cookie = None\<rparr>,
             snd (server ev t2 \<lparr>cookies_token = Some tokB, route = POST_chats bB\<rparr>
                (snd (server ev t1 \<lparr>cookies_token = Some tokA, route = POST_chats bA\<rparr> db))))
          \<and> \<not> (\<exists>m \<in> set rows. c_user_id m \<noteq> tok_id userA)
          \<and> \<not> (\<exists>m \<in> set rows. c_user_id m = tok_id userB)
          \<and> chat_columns ev (field bA ''role'') (field bA ''content'') = Some (rA, cA)
          \<and> (\<forall>r c. field bA ''role'' = JString r \<and> field bA ''content'' = JString c \<longrightarrow>
                rA = Some r \<and> cA = Some c)
          \<and> (\<exists>m \<in> set rows. c_role m = rA \<and> c_content m = cA)
          \<and> (\<not> (\<exists>c \<in> set (chats db). c_user_id c = tok_id userA) \<longrightarrow>
               (\<exists>i. next_rowid (seq_chats db) (map c_id (chats db)) = Some i
                  \<and> rows = [\<lparr>c_id = i, c_user_id = tok_id userA, c_role = rA,
                              c_content = cA, c_timestamp = t1\<rparr>]))"
    unfolding s1 s2 using g own notB colsA strings mem single by blast
  have g0: "server ev t0 \<lparr>cookies_token = Some tokA, route = GET_chats\<rparr> db0 =
              (\<lparr>status = 200, body = Chats_json (select_chats (tok_id userA) db0), cookie = None\<rparr>,
               db0)"
    using assms(1,2) by (simp add: server_valid_route chats_get_def res_json_def)
  have "\<forall>m \<in> set (select_chats (tok_id userA) db0).
          c_user_id m = tok_id userA \<and> c_user_id m \<noteq> tok_id userB"
    using assms(5) by (simp add: set_select_chats)
  with g0 have every_store: "\<exists>rows0.
            server ev t0 \<lparr>cookies_token = Some tokA, route = GET_chats\<rparr> db0 =
              (\<lparr>status = 200, body = Chats_json rows0, cookie = None\<rparr>, db0)
          \<and> (\<forall>m \<in> set rows0. c_user_id m = tok_id userA \<and> c_user_id m \<noteq> tok_id userB)"
    by blast
  from scenario every_store show ?thesis by (rule conjI)
qed

theorem chat_listing_isolated_per_user_witness:
  "body (fst (server demo_env (42::nat) \<lparr>cookies_token = Some ''tokenA'', route = GET_chats\<rparr>
     (snd (server demo_env (41::nat)
        \<lparr>cookies_token = Some ''tokenB'', route = POST_chats hello_from_bob\<rparr>
     (snd (server demo_env (40::nat)
        \<lparr>cookies_token = Some ''tokenA'', route = POST_chats hello_from_alice\<rparr> demo_db)))))) =
   Chats_json [\<lparr>c_id = 1, c_user_id = 1, c_role = Some ''user'',
                c_content = Some ''**hello** <b>world</b>'', c_timestamp = 40\<rparr>]"
proof -
  have v: "''tokenA'' \<noteq> []" "jwt_verify demo_env ''tokenA'' (JWT_SECRET demo_env) = Some alice"
    "''tokenB'' \<noteq> []" "jwt_verify demo_env ''tokenB'' (JWT_SECRET demo_env) = Some bob"
    "tok_id alice \<noteq> tok_id bob"
    by (simp_all add: demo_env_def alice_def bob_def)
  have fa: "field hello_from_alice ''role'' = JString ''user''"
    "field hello_from_alice ''content'' = JString ''**hello** <b>world</b>''"
    by (simp_all add: hello_from_alice_def field_def)
  have colsA: "chat_columns demo_env (field hello_from_alice ''role'')
      (field hello_from_alice ''content'') = Some (Some ''user'', Some ''**hello** <b>world</b>'')"
    using fa by (simp add: chat_columns_strings)
  have colsB: "chat_columns demo_env (field hello_from_bob ''role'')
      (field hello_from_bob ''content'') = Some (Some ''user'', Some ''bonjour'')"
    by (simp add: hello_from_bob_def field_def chat_columns_strings)
  have fkA: "foreign_key_ok demo_env demo_db (tok_id alice)"
    by (simp add: foreign_key_ok_def demo_env_def demo_db_def alice_def)
  have nA: "next_rowid (seq_chats demo_db) (map c_id (chats demo_db)) = Some 1"
    by (simp add: next_rowid_def demo_db_def MAX_ROWID_def)
  note pA = chats_post_ok [OF colsA fkA nA, of "40::nat"]
  have sA: "server demo_env (40::nat)
        \<lparr>cookies_token = Some ''tokenA'', route = POST_chats hello_from_alice\<rparr> demo_db =
      chats_post demo_env 40 hello_from_alice alice demo_db"
    using v(1,2) by (simp add: server_valid_route)
  have ackA: "status (fst (server demo_env (40::nat)
        \<lparr>cookies_token = Some ''tokenA'', route = POST_chats hello_from_alice\<rparr> demo_db)) = 200"
    unfolding sA pA by simp
  let ?db1 = "snd (server demo_env (40::nat)
        \<lparr>cookies_token = Some ''tokenA'', route = POST_chats hello_from_alice\<rparr> demo_db)"
  have d1: "?db1 = demo_db\<lparr>chats := chats demo_db @
              [\<lparr>c_id = 1, c_user_id = tok_id alice, c_role = Some ''user'',
                c_content = Some ''**hello** <b>world</b>'', c_timestamp = 40\<rparr>],
            seq_chats := 1\<rparr>"
    unfolding sA pA by simp
  have fkB: "foreign_key_ok demo_env ?db1 (tok_id bob)"
    unfolding d1 by (simp add: foreign_key_ok_def demo_env_def demo_db_def bob_def)
  have nB: "next_rowid (seq_chats ?db1) (map c_id (chats ?db1)) = Some 2"
    unfolding d1 by (simp add: next_rowid_def demo_db_def MAX_ROWID_def)
  have ackB: "status (fst (server demo_env (41::nat)
        \<lparr>cookies_token = Some ''tokenB'', route = POST_chats hello_from_bob\<rparr> ?db1)) = 200"
    using v(3,4) chats_post_ok [OF colsB fkB nB, of "41::nat"]
    by (simp add: server_valid_route)
  have none: "\<not> (\<exists>c \<in> set (chats demo_db). c_user_id c = tok_id alice)"
    by (simp add: demo_db_def)
  from chat_listing_isolated_per_user
    [OF v ackA ackB, of "42::nat" "43::nat" demo_log] none fa nA
  obtain rows rA cA where
    g: "server demo_env (42::nat) \<lparr>cookies_token = Some ''tokenA'', route = GET_chats\<rparr>
     (snd (server demo_env (41::nat)
        \<lparr>cookies_token = Some ''tokenB'', route = POST_chats hello_from_bob\<rparr> ?db1)) =
      (\<lparr>status = 200, body = Chats_json rows, cookie = None\<rparr>,
       snd (server demo_env (41::nat)
        \<lparr>cookies_token = Some ''tokenB'', route = POST_chats hello_from_bob\<rparr> ?db1))"
    and s: "rA = Some ''user''" "cA = Some ''**hello** <b>world</b>''"
    and r: "rows = [\<lparr>c_id = 1, c_user_id = tok_id alice, c_role = rA,
                      c_content = cA, c_timestamp = 40\<rparr>]"
    by auto
  from g s r show ?thesis by (simp add: alice_def)
qed

section \<open>The mood label of a chat message\<close>

text \<open>
  Claim C8 (a bot message appended with a mood is stored and listed with that mood
  label) does not hold of the server: the client posts the bot message with its mood
  \<open>Happy\<close> to \<^verbatim>\<open>/api/chats\<close>, the post is acknowledged, and the row that is stored and
  listed has the keys id, user_id, role, content and timestamp and no mood, so that
  \<^verbatim>\<open>msg.mood\<close> of the listed message is undefined.
\<close>

theorem bot_mood_dropped:
  "field bot_reply ''role'' = JString ''bot'' \<and> field bot_reply ''mood'' = JString ''Happy''
   \<and> server demo_env (40::nat)
        \<lparr>cookies_token = Some ''tokenA'', route = POST_chats bot_reply\<rparr> demo_db =
      (\<lparr>status = 200, body = Success_json True, cookie = None\<rparr>,
       demo_db\<lparr>chats := [\<lparr>c_id = 1, c_user_id = 1, c_role = Some ''bot'',
                            c_content = Some ''Glad to hear it!'', c_timestamp = 40\<rparr>],
               seq_chats := 1\<rparr>)
   \<and> body (fst (server demo_env (41::nat) \<lparr>cookies_token = Some ''tokenA'', route = GET_chats\<rparr>
       (snd (server demo_env (40::nat)
          \<lparr>cookies_token = Some ''tokenA'', route = POST_chats bot_reply\<rparr> demo_db)))) =
     Chats_json [\<lparr>c_id = 1, c_user_id = 1, c_role = Some ''bot'',
                  c_content = Some ''Glad to hear it!'', c_timestamp = 40\<rparr>]
   \<and> map fst (chat_json \<lparr>c_id = 1, c_user_id = 1, c_role = Some ''bot'',
                  c_content = Some ''Glad to hear it!'', c_timestamp = 40::nat\<rparr>) =
       [''id'', ''user_id'', ''role'', ''content'', ''timestamp'']
   \<and> msg_mood \<lparr>c_id = 1, c_user_id = 1, c_role = Some ''bot'',
                  c_content = Some ''Glad to hear it!'', c_timestamp = 40::nat\<rparr> = None"
  by (simp add: bot_reply_def field_def server_def authenticateToken_def demo_env_def alice_def
      chats_post_def insert_chat_def chat_columns_def text_affinity_def foreign_key_ok_def
      demo_db_def next_rowid_def MAX_ROWID_def res_json_def chats_get_def select_chats_def
      msg_mood_def chat_json_def)

section \<open>Validation of a chat message\<close>

text \<open>
  Claim C9 as stated fails: a post whose role is the empty string is acknowledged and
  its row is inserted.
\<close>

theorem empty_role_inserted_counterexample:
  "field empty_role_post ''role'' = JString []
   \<and> chats demo_db = []
   \<and> server demo_env (40::nat)
       \<lparr>cookies_token = Some ''tokenA'', route = POST_chats empty_role_post\<rparr> demo_db =
     (\<lparr>status = 200, body = Success_json True, cookie = None\<rparr>,
      demo_db\<lparr>chats := [\<lparr>c_id = 1, c_user_id = 1, c_role = Some [], c_content = Some ''hi'',
                           c_timestamp = 40\<rparr>],
              seq_chats := 1\<rparr>)"
  by (simp add: empty_role_post_def field_def server_def authenticateToken_def demo_env_def
      alice_def chats_post_def insert_chat_def chat_columns_def text_affinity_def
      foreign_key_ok_def demo_db_def next_rowid_def MAX_ROWID_def res_json_def)

text \<open>
  Claim C9, amended. \<^verbatim>\<open>POST /api/chats\<close> does not validate the role: an empty role is
  handled like any other string. For every request with a valid token whose role and
  content are strings, empty or not, whose user id is a row of the users table where
  the foreign key is enforced, and with the rowids of the chats table not exhausted,
  the request is acknowledged with status 200 and appends one row with that role and
  content, the user's id and the current timestamp. A request with a valid token that
  is not acknowledged is answered 500 and inserts nothing, which happens only when the
  store cannot bind role and content, the foreign key fails or the rowids are
  exhausted.
\<close>

theorem chats_post_no_validation:
  assumes "tok \<noteq> []" and "jwt_verify ev tok (JWT_SECRET ev) = Some user"
  shows "(field b ''role'' = JString r \<and> field b ''content'' = JString c
          \<and> foreign_key_ok ev db (tok_id user)
          \<and> next_rowid (seq_chats db) (map c_id (chats db)) = Some i \<longrightarrow>
            server ev now \<lparr>cookies_token = Some tok, route = POST_chats b\<rparr> db =
              (\<lparr>status = 200, body = Success_json True, cookie = None\<rparr>,
               db\<lparr>chats := chats db @
                     [\<lparr>c_id = i, c_user_id = tok_id user, c_role = Some r, c_content = Some c,
                       c_timestamp = now\<rparr>],
                  seq_chats := i\<rparr>))
       \<and> (status (fst (server ev now \<lparr>cookies_token = Some tok, route = POST_chats b\<rparr> db)) \<noteq> 200
            \<longrightarrow>
            server ev now \<lparr>cookies_token = Some tok, route = POST_chats b\<rparr> db =
              (\<lparr>status = 500, body = Internal_server_error, cookie = None\<rparr>, db)
            \<and> (chat_columns ev (field b ''role'') (field b ''content'') = None
                 \<or> \<not> foreign_key_ok ev db (tok_id user)
                 \<or> next_rowid (seq_chats db) (map c_id (chats db)) = None))"
proof -
  have ok: "server ev now \<lparr>cookies_token = Some tok, route = POST_chats b\<rparr> db =
              (\<lparr>status = 200, body = Success_json True, cookie = None\<rparr>,
               db\<lparr>chats := chats db @
                     [\<lparr>c_id = i, c_user_id = tok_id user, c_role = Some r, c_content = Some c,
                       c_timestamp = now\<rparr>],
                  seq_chats := i\<rparr>)"
    if "field b ''role'' = JString r" and "field b ''content'' = JString c"
      and fk: "foreign_key_ok ev db (tok_id user)"
      and n: "next_rowid (seq_chats db) (map c_id (chats db)) = Some i"
  proof -
    from that(1,2)
    have cols: "chat_columns ev (field b ''role'') (field b ''content'') = Some (Some r, Some c)"
      by (simp add: chat_columns_strings)
    show ?thesis
      using assms chats_post_ok [OF cols fk n] by (simp add: server_valid_route)
  qed
  have s: "server ev now \<lparr>cookies_token = Some tok, route = POST_chats b\<rparr> db =
      chats_post ev now b user db"
    using assms by (simp add: server_valid_route)
  have refused: "server ev now \<lparr>cookies_token = Some tok, route = POST_chats b\<rparr> db =
              (\<lparr>status = 500, body = Internal_server_error, cookie = None\<rparr>, db)
            \<and> (chat_columns ev (field b ''role'') (field b ''content'') = None
                 \<or> \<not> foreign_key_ok ev db (tok_id user)
                 \<or> next_rowid (seq_chats db) (map c_id (chats db)) = None)"
    if a: "status (fst (server ev now
      \<lparr>cookies_token = Some tok, route = POST_chats b\<rparr> db)) \<noteq> 200"
  proof (cases rule: chats_post_cases [of ev b db user now])
    case rejected
    then show ?thesis using s by simp
  next
    case (inserted r' c' i')
    with a s show ?thesis by simp
  qed
  from ok refused show ?thesis by blast
qed

theorem chats_post_no_validation_witness:
  "chats (snd (server demo_env (40::nat)
       \<lparr>cookies_token = Some ''tokenB'',
        route = POST_chats [(''role'', JString []), (''content'', JString [])]\<rparr> demo_db)) =
     [\<lparr>c_id = 1, c_user_id = 2, c_role = Some [], c_content = Some [], c_timestamp = 40\<rparr>]
   \<and> server demo_env (40::nat)
       \<lparr>cookies_token = Some ''tokenB'',
        route = POST_chats [(''role'', JString ''user''), (''content'', JBoolean True)]\<rparr> demo_db =
     (\<lparr>status = 500, body = Internal_server_error, cookie = None\<rparr>, demo_db)"
proof -
  have v: "''tokenB'' \<noteq> []" "jwt_verify demo_env ''tokenB'' (JWT_SECRET demo_env) = Some bob"
    by (simp_all add: demo_env_def)
  have a: "field [(''role'', JString []), (''content'', JString [])] ''role'' = JString []
      \<and> field [(''role'', JString []), (''content'', JString [])] ''content'' = JString []
      \<and> foreign_key_ok demo_env demo_db (tok_id bob)
      \<and> next_rowid (seq_chats demo_db) (map c_id (chats demo_db)) = Some 1"
    by (simp add: field_def foreign_key_ok_def demo_env_def demo_db_def bob_def next_rowid_def
        MAX_ROWID_def)
  from chats_post_no_validation [OF v, of "[(''role'', JString []), (''content'', JString [])]"
      "[]" "[]" demo_db 1 "40::nat"] a
  have "server demo_env (40::nat)
       \<lparr>cookies_token = Some ''tokenB'',
        route = POST_chats [(''role'', JString []), (''content'', JString [])]\<rparr> demo_db =
     (\<lparr>status = 200, body = Success_json True, cookie = None\<rparr>,
      demo_db\<lparr>chats := chats demo_db @
            [\<lparr>c_id = 1, c_user_id = tok_id bob, c_role = Some [], c_content = Some [],
              c_timestamp = 40\<rparr>],
         seq_chats := 1\<rparr>)"
    by blast
  then have one: "chats (snd (server demo_env (40::nat)
       \<lparr>cookies_token = Some ''tokenB'',
        route = POST_chats [(''role'', JString []), (''content'', JString [])]\<rparr> demo_db)) =
     [\<lparr>c_id = 1, c_user_id = 2, c_role = Some [], c_content = Some [], c_timestamp = 40\<rparr>]"
    by (simp add: demo_db_def bob_def)
  have "status (fst (server demo_env (40::nat)
       \<lparr>cookies_token = Some ''tokenB'',
        route = POST_chats [(''role'', JString ''user''), (''content'', JBoolean True)]\<rparr> demo_db))
     \<noteq> 200"
    using v
    by (simp add: server_valid_route chats_post_def insert_chat_def chat_columns_def field_def
        res_status_json_def)
  with chats_post_no_validation [OF v,
      of "[(''role'', JString ''user''), (''content'', JBoolean True)]" "[]" "[]" demo_db 1 "40::nat"]
  have two: "server demo_env (40::nat)
       \<lparr>cookies_token = Some ''tokenB'',
        route = POST_chats [(''role'', JString ''user''), (''content'', JBoolean True)]\<rparr> demo_db =
     (\<lparr>status = 500, body = Internal_server_error, cookie = None\<rparr>, demo_db)"
    by blast
  from one two show ?thesis by (rule conjI)
qed

section \<open>Ownership of inserted rows\<close>

text \<open>
  Claim C10. After \<^verbatim>\<open>POST /api/chats\<close> or \<^verbatim>\<open>POST /api/moods\<close> with a valid token,
  every row of the table that was not there before has the \<open>user_id\<close> of the token's
  identity and the database's current timestamp; a \<^verbatim>\<open>user_id\<close> or a timestamp in the
  request body changes neither the answer nor the store, which depend on the role and
  content (or the mood) of the body alone; and where the insert goes through (the
  foreign key holds, the values bind and the rowids are not exhausted), exactly one
  such row is appended.
\<close>

theorem inserted_rows_owned_by_token_identity:
  assumes "tok \<noteq> []" and "jwt_verify ev tok (JWT_SECRET ev) = Some user"
  shows "(\<forall>c \<in> set (chats (snd (server ev now
              \<lparr>cookies_token = Some tok, route = POST_chats b\<rparr> db))).
            c \<in> set (chats db) \<or> (c_user_id c = tok_id user \<and> c_timestamp c = now))
       \<and> (\<forall>m \<in> set (moods (snd (server ev now
              \<lparr>cookies_token = Some tok, route = POST_moods mb\<rparr> db))).
            m \<in> set (moods db) \<or> (m_user_id m = tok_id user \<and> m_timestamp m = now))
       \<and> server ev now \<lparr>cookies_token = Some tok,
            route = POST_chats (b @ [(''user_id'', uid'), (''timestamp'', ts')])\<rparr> db =
          server ev now \<lparr>cookies_token = Some tok, route = POST_chats b\<rparr> db
       \<and> server ev now \<lparr>cookies_token = Some tok,
            route = POST_moods (mb @ [(''user_id'', uid'), (''timestamp'', ts')])\<rparr> db =
          server ev now \<lparr>cookies_token = Some tok, route = POST_moods mb\<rparr> db
       \<and> (field b' ''role'' = field b ''role'' \<and> field b' ''content'' = field b ''content'' \<longrightarrow>
            server ev now \<lparr>cookies_token = Some tok, route = POST_chats b'\<rparr> db =
            server ev now \<lparr>cookies_token = Some tok, route = POST_chats b\<rparr> db)
       \<and> (field mb' ''mood'' = field mb ''mood'' \<longrightarrow>
            server ev now \<lparr>cookies_token = Some tok, route = POST_moods mb'\<rparr> db =
            server ev now \<lparr>cookies_token = Some tok, route = POST_moods mb\<rparr> db)
       \<and> (foreign_key_ok ev db (tok_id user) \<longrightarrow>
            (chat_columns ev (field b ''role'') (field b ''content'') \<noteq> None
               \<and> next_rowid (seq_chats db) (map c_id (chats db)) \<noteq> None \<longrightarrow>
             (\<exists>c. chats (snd (server ev now
                    \<lparr>cookies_token = Some tok, route = POST_chats b\<rparr> db)) = chats db @ [c]
                 \<and> c_user_id c = tok_id user \<and> c_timestamp c = now))
          \<and> (mood_column ev (field mb ''mood'') \<noteq> None
               \<and> next_rowid (seq_moods db) (map m_id (moods db)) \<noteq> None \<longrightarrow>
             (\<exists>m. moods (snd (server ev now
                    \<lparr>cookies_token = Some tok, route = POST_moods mb\<rparr> db)) = moods db @ [m]
                 \<and> m_user_id m = tok_id user \<and> m_timestamp m = now)))"
proof -
  note route = server_valid_route [OF assms]
  have c1: "\<forall>c \<in> set (chats (snd (chats_post ev now b user db))).
            c \<in> set (chats db) \<or> (c_user_id c = tok_id user \<and> c_timestamp c = now)"
    by (cases rule: chats_post_cases [of ev b db user now]) auto
  have m1: "\<forall>m \<in> set (moods (snd (moods_post ev now mb user db))).
            m \<in> set (moods db) \<or> (m_user_id m = tok_id user \<and> m_timestamp m = now)"
    by (cases rule: moods_post_cases [of ev mb db user now]) auto
  have c2: "chats_post ev now (b @ [(''user_id'', uid'), (''timestamp'', ts')]) user db =
            chats_post ev now b user db"
    by (rule chats_post_depends) (simp_all add: field_extra)
  have m2: "moods_post ev now (mb @ [(''user_id'', uid'), (''timestamp'', ts')]) user db =
            moods_post ev now mb user db"
    by (rule moods_post_depends) (simp add: field_extra)
  have c3: "chats_post ev now b' user db = chats_post ev now b user db"
    if "field b' ''role'' = field b ''role'' \<and> field b' ''content'' = field b ''content''"
    by (rule chats_post_depends) (simp_all add: that)
  have m3: "moods_post ev now mb' user db = moods_post ev now mb user db"
    if "field mb' ''mood'' = field mb ''mood''"
    using that by (rule moods_post_depends)
  have c4: "\<exists>c. chats (snd (chats_post ev now b user db)) = chats db @ [c]
                 \<and> c_user_id c = tok_id user \<and> c_timestamp c = now"
    if "foreign_key_ok ev db (tok_id user)"
      and "chat_columns ev (field b ''role'') (field b ''content'') \<noteq> None
               \<and> next_rowid (seq_chats db) (map c_id (chats db)) \<noteq> None"
  proof (cases rule: chats_post_cases [of ev b db user now])
    case rejected
    with that show ?thesis by auto
  next
    case (inserted r c i)
    then show ?thesis by simp
  qed
  have m4: "\<exists>m. moods (snd (moods_post ev now mb user db)) = moods db @ [m]
                 \<and> m_user_id m = tok_id user \<and> m_timestamp m = now"
    if "foreign_key_ok ev db (tok_id user)"
      and "mood_column ev (field mb ''mood'') \<noteq> None
               \<and> next_rowid (seq_moods db) (map m_id (moods db)) \<noteq> None"
  proof (cases rule: moods_post_cases [of ev mb db user now])
    case rejected
    with that show ?thesis by auto
  next
    case (inserted m i)
    then show ?thesis by simp
  qed
  show ?thesis
    unfolding route
  proof (intro conjI impI)
    show "\<forall>c \<in> set (chats (snd (chats_post ev now b user db))).
            c \<in> set (chats db) \<or> (c_user_id c = tok_id user \<and> c_timestamp c = now)"
      by (rule c1)
    show "\<forall>m \<in> set (moods (snd (moods_post ev now mb user db))).
            m \<in> set (moods db) \<or> (m_user_id m = tok_id user \<and> m_timestamp m = now)"
      by (rule m1)
    show "chats_post ev now (b @ [(''user_id'', uid'), (''timestamp'', ts')]) user db =
            chats_post ev now b user db"
      by (rule c2)
    show "moods_post ev now (mb @ [(''user_id'', uid'), (''timestamp'', ts')]) user db =
            moods_post ev now mb user db"
      by (rule m2)
    show "chats_post ev now b' user db = chats_post ev now b user db"
      if "field b' ''role'' = field b ''role'' \<and> field b' ''content'' = field b ''content''"
      using that by (rule c3)
    show "moods_post ev now mb' user db = moods_post ev now mb user db"
      if "field mb' ''mood'' = field mb ''mood''"
      using that by (rule m3)
    show "\<exists>c. chats (snd (chats_post ev now b user db)) = chats db @ [c]
                 \<and> c_user_id c = tok_id user \<and> c_timestamp c = now"
      if "foreign_key_ok ev db (tok_id user)"
        and "chat_columns ev (field b ''role'') (field b ''content'') \<noteq> None
               \<and> next_rowid (seq_chats db) (map c_id (chats db)) \<noteq> None"
      using that by (rule c4)
    show "\<exists>m. moods (snd (moods_post ev now mb user db)) = moods db @ [m]
                 \<and> m_user_id m = tok_id user \<and> m_timestamp m = now"
      if "foreign_key_ok ev db (tok_id user)"
        and "mood_column ev (field mb ''mood'') \<noteq> None
               \<and> next_rowid (seq_moods db) (map m_id (moods db)) \<noteq> None"
      using that by (rule m4)
  qed
qed

theorem inserted_rows_owned_by_token_identity_witness:
  "field post_as_bob ''user_id'' = JNumber 2 \<and> field mood_as_bob ''user_id'' = JNumber 2
   \<and> chats (snd (server demo_env (40::nat)
       \<lparr>cookies_token = Some ''tokenA'', route = POST_chats post_as_bob\<rparr> demo_db)) =
     [\<lparr>c_id = 1, c_user_id = 1, c_role = Some ''user'', c_content = Some ''hi'',
       c_timestamp = 40\<rparr>]
   \<and> map m_user_id (moods (snd (server demo_env (40::nat)
       \<lparr>cookies_token = Some ''tokenA'', route = POST_moods mood_as_bob\<rparr> demo_db))) = [1]"
proof -
  have v: "''tokenA'' \<noteq> []" "jwt_verify demo_env ''tokenA'' (JWT_SECRET demo_env) = Some alice"
    by (simp_all add: demo_env_def)
  have fk: "foreign_key_ok demo_env demo_db (tok_id alice)"
    by (simp add: demo_env_def foreign_key_ok_def demo_db_def alice_def)
  have cols: "chat_columns demo_env (field post_as_bob ''role'') (field post_as_bob ''content'')
      = Some (Some ''user'', Some ''hi'')"
    by (simp add: post_as_bob_def field_def chat_columns_strings)
  have mcol: "mood_column demo_env (field mood_as_bob ''mood'') = Some (Some ''Sad'')"
    by (simp add: mood_as_bob_def field_def mood_column_string)
  have n: "next_rowid (seq_chats demo_db) (map c_id (chats demo_db)) = Some 1"
    "next_rowid (seq_moods demo_db) (map m_id (moods demo_db)) = Some 1"
    by (simp_all add: next_rowid_def demo_db_def MAX_ROWID_def)
  have e: "chats demo_db = []" "moods demo_db = []"
    by (simp_all add: demo_db_def)
  note t = inserted_rows_owned_by_token_identity
    [OF v, of "40::nat" post_as_bob demo_db mood_as_bob JNull JNull post_as_bob mood_as_bob]
  from t fk cols mcol n have
    "(\<exists>c. chats (snd (server demo_env (40::nat)
          \<lparr>cookies_token = Some ''tokenA'', route = POST_chats post_as_bob\<rparr> demo_db)) =
          chats demo_db @ [c] \<and> c_user_id c = tok_id alice \<and> c_timestamp c = 40)
     \<and> (\<exists>m. moods (snd (server demo_env (40::nat)
          \<lparr>cookies_token = Some ''tokenA'', route = POST_moods mood_as_bob\<rparr> demo_db)) =
          moods demo_db @ [m] \<and> m_user_id m = tok_id alice \<and> m_timestamp m = 40)"
    by simp
  with e obtain c m where
    m: "moods (snd (server demo_env (40::nat)
          \<lparr>cookies_token = Some ''tokenA'', route = POST_moods mood_as_bob\<rparr> demo_db)) = [m]"
       "m_user_id m = tok_id alice"
    by auto
  have "chats (snd (server demo_env (40::nat)
       \<lparr>cookies_token = Some ''tokenA'', route = POST_chats post_as_bob\<rparr> demo_db)) =
     [\<lparr>c_id = 1, c_user_id = 1, c_role = Some ''user'', c_content = Some ''hi'',
       c_timestamp = 40\<rparr>]"
    using v chats_post_ok [OF cols fk n(1), of "40::nat"]
    by (simp add: server_valid_route alice_def demo_db_def)
  moreover have "map m_user_id (moods (snd (server demo_env (40::nat)
       \<lparr>cookies_token = Some ''tokenA'', route = POST_moods mood_as_bob\<rparr> demo_db))) = [1]"
    using m by (simp add: alice_def)
  ultimately show ?thesis by (simp add: post_as_bob_def mood_as_bob_def field_def)
qed

end
